theory Spec2Isabelle
  imports Complex_Main
begin

section \<open>Values, exceptions and the Python operations the handlers rely on\<close>

text \<open>
  The program is \<^verbatim>\<open>list_inventory_lambda.py\<close>: a router (\<^verbatim>\<open>lambda_handler\<close>), an
  authenticator (\<^verbatim>\<open>authenticate_request\<close>) and five handlers that talk to an ERP over
  XML-RPC. Strings are lists of characters with code points below 256.

  A float is the rational it denotes, or one of the three special values. The two
  conversions that involve rounding (\<^verbatim>\<open>float(str)\<close>, \<^verbatim>\<open>float(int)\<close>) and the
  rendering of an arbitrary value inside an f-string are not defined here: they are
  fields of the record \<open>builtins\<close>, so every theorem holds for any behaviour of them.
\<close>

datatype pyfloat = Fin rat | PInf | NInf | NaN

datatype json =
    JNull
  | JBool bool
  | JInt int
  | JFloat pyfloat
  | JStr string
  | JArr "json list"
  | JObj "(string \<times> json) list"

text \<open>
  Exceptions. \<open>Fault fs txt\<close> is \<^verbatim>\<open>xmlrpc.client.Fault\<close> with its \<^verbatim>\<open>faultString\<close> and
  its \<^verbatim>\<open>str()\<close>; \<open>OtherError txt\<close> is any other exception of the transport, or
  \<^verbatim>\<open>Exception(txt)\<close>; \<open>KeyError txt\<close> carries its \<^verbatim>\<open>str()\<close>, the \<^verbatim>\<open>repr\<close> of the key.
\<close>

datatype pyexc =
    Fault string string
  | OtherError string
  | KeyError string
  | IndexError
  | TypeError
  | ValueError
  | AttributeError
  | OverflowError

record builtins =
  float_of_str :: "string \<Rightarrow> pyfloat option"
  float_of_int :: "int \<Rightarrow> pyfloat option"
  format_value :: "json \<Rightarrow> string"

definition quote :: char where
  "quote = CHR 0x22"

definition apostrophe :: char where
  "apostrophe = CHR 0x27"

text \<open>\<^verbatim>\<open>str(e)\<close>, as the handlers interpolate it into an error message.\<close>

fun exc_str :: "pyexc \<Rightarrow> string" where
  "exc_str (Fault fs txt) = txt"
| "exc_str (OtherError txt) = txt"
| "exc_str (KeyError txt) = txt"
| "exc_str IndexError = ''list index out of range''"
| "exc_str TypeError = ''TypeError''"
| "exc_str ValueError = ''ValueError''"
| "exc_str AttributeError = ''AttributeError''"
| "exc_str OverflowError = ''OverflowError''"

subsection \<open>Strings\<close>

definition is_space :: "char \<Rightarrow> bool" where
  "is_space c = (let n = (of_char c :: nat) in
     (9 \<le> n \<and> n \<le> 13) \<or> (28 \<le> n \<and> n \<le> 32) \<or> n = 133 \<or> n = 160)"

definition strip :: "string \<Rightarrow> string" where
  "strip s = rev (dropWhile is_space (rev (dropWhile is_space s)))"

definition lower_char :: "char \<Rightarrow> char" where
  "lower_char c = (let n = (of_char c :: nat) in
     if (65 \<le> n \<and> n \<le> 90) \<or> (192 \<le> n \<and> n \<le> 222 \<and> n \<noteq> 215)
     then char_of (n + 32) else c)"

definition lower :: "string \<Rightarrow> string" where
  "lower s = map lower_char s"

fun is_prefix :: "string \<Rightarrow> string \<Rightarrow> bool" where
  "is_prefix [] t = True"
| "is_prefix (c # s) [] = False"
| "is_prefix (c # s) (d # t) = (c = d \<and> is_prefix s t)"

fun is_substring :: "string \<Rightarrow> string \<Rightarrow> bool" where
  "is_substring s [] = (s = [])"
| "is_substring s (d # t) = (is_prefix s (d # t) \<or> is_substring s t)"

definition is_digit :: "char \<Rightarrow> bool" where
  "is_digit c = (let n = (of_char c :: nat) in 48 \<le> n \<and> n \<le> 57)"

definition digit_val :: "char \<Rightarrow> nat" where
  "digit_val c = of_char c - 48"

text \<open>
  The digits of \<^verbatim>\<open>int(s)\<close>: decimal digits, where single underscores may stand between
  two digits (the bound that recent Python versions put on the number of digits is left
  out). \<open>digits_from acc prev s\<close> reads \<open>s\<close> after the character class \<open>prev\<close>
  (\<open>True\<close>: a digit came last).
\<close>

fun digits_from :: "nat \<Rightarrow> bool \<Rightarrow> string \<Rightarrow> nat option" where
  "digits_from acc prev [] = (if prev then Some acc else None)"
| "digits_from acc prev (c # s) =
     (if is_digit c then digits_from (10 * acc + digit_val c) True s
      else if c = CHR ''_'' \<and> prev then
        (case s of [] \<Rightarrow> None
         | d # s' \<Rightarrow> if is_digit d then digits_from acc False s else None)
      else None)"

definition int_of_str :: "string \<Rightarrow> int option" where
  "int_of_str s =
     (case strip s of
        [] \<Rightarrow> None
      | c # t \<Rightarrow>
          if c = CHR ''-'' then map_option (\<lambda>n. - int n) (digits_from 0 False t)
          else if c = CHR ''+'' then map_option int (digits_from 0 False t)
          else map_option int (digits_from 0 False (c # t)))"

fun digit_string :: "nat \<Rightarrow> string" where
  "digit_string n =
     (if n < 10 then [char_of (48 + n)]
      else digit_string (n div 10) @ [char_of (48 + n mod 10)])"

definition str_of_int :: "int \<Rightarrow> string" where
  "str_of_int i = (if i < 0 then CHR ''-'' # digit_string (nat (- i)) else digit_string (nat i))"

subsection \<open>Dynamic operations on parsed JSON\<close>

text \<open>Truthiness, as \<^verbatim>\<open>if x:\<close> and \<^verbatim>\<open>not x\<close> test it.\<close>

fun truthy :: "json \<Rightarrow> bool" where
  "truthy JNull = False"
| "truthy (JBool b) = b"
| "truthy (JInt i) = (i \<noteq> 0)"
| "truthy (JFloat f) = (f \<noteq> Fin 0)"
| "truthy (JStr s) = (s \<noteq> [])"
| "truthy (JArr xs) = (xs \<noteq> [])"
| "truthy (JObj kvs) = (kvs \<noteq> [])"

text \<open>\<^verbatim>\<open>key in data\<close>: a key of a dict, an element of a list, a substring of a string.\<close>

fun py_in :: "string \<Rightarrow> json \<Rightarrow> pyexc + bool" where
  "py_in k (JObj kvs) = Inr (map_of kvs k \<noteq> None)"
| "py_in k (JArr xs) = Inr (JStr k \<in> set xs)"
| "py_in k (JStr s) = Inr (is_substring k s)"
| "py_in k _ = Inl TypeError"

text \<open>\<^verbatim>\<open>data[key]\<close> with a string key.\<close>

fun py_getitem :: "json \<Rightarrow> string \<Rightarrow> pyexc + json" where
  "py_getitem (JObj kvs) k =
     (case map_of kvs k of None \<Rightarrow> Inl (KeyError (apostrophe # k @ [apostrophe])) | Some v \<Rightarrow> Inr v)"
| "py_getitem _ k = Inl TypeError"

text \<open>\<^verbatim>\<open>data.get(key, default)\<close>: only a dict has the method.\<close>

fun py_get :: "json \<Rightarrow> string \<Rightarrow> json \<Rightarrow> pyexc + json" where
  "py_get (JObj kvs) k d = Inr (case map_of kvs k of None \<Rightarrow> d | Some v \<Rightarrow> v)"
| "py_get _ k d = Inl AttributeError"

fun py_strip :: "json \<Rightarrow> pyexc + string" where
  "py_strip (JStr s) = Inr (strip s)"
| "py_strip _ = Inl AttributeError"

text \<open>\<^verbatim>\<open>x[i]\<close> with a small non-negative index.\<close>

fun py_index :: "json \<Rightarrow> nat \<Rightarrow> pyexc + json" where
  "py_index (JArr xs) i = (if i < length xs then Inr (xs ! i) else Inl IndexError)"
| "py_index (JStr s) i = (if i < length s then Inr (JStr [s ! i]) else Inl IndexError)"
| "py_index (JObj kvs) i = Inl (KeyError (str_of_int (int i)))"
| "py_index _ i = Inl TypeError"

text \<open>The elements a \<^verbatim>\<open>for\<close> loop or \<^verbatim>\<open>list.extend\<close> draws from a value.\<close>

fun py_iter :: "json \<Rightarrow> pyexc + json list" where
  "py_iter (JArr xs) = Inr xs"
| "py_iter (JStr s) = Inr (map (\<lambda>c. JStr [c]) s)"
| "py_iter (JObj kvs) = Inr (map (\<lambda>kv. JStr (fst kv)) kvs)"
| "py_iter _ = Inl TypeError"

fun hashable :: "json \<Rightarrow> bool" where
  "hashable (JArr xs) = False"
| "hashable (JObj kvs) = False"
| "hashable _ = True"

text \<open>\<^verbatim>\<open>int(x)\<close>.\<close>

fun py_int :: "json \<Rightarrow> pyexc + int" where
  "py_int (JInt i) = Inr i"
| "py_int (JBool b) = Inr (if b then 1 else 0)"
| "py_int (JFloat (Fin q)) = Inr (if q < 0 then - \<lfloor>- q\<rfloor> else \<lfloor>q\<rfloor>)"
| "py_int (JFloat NaN) = Inl ValueError"
| "py_int (JFloat _) = Inl OverflowError"
| "py_int (JStr s) = (case int_of_str s of None \<Rightarrow> Inl ValueError | Some i \<Rightarrow> Inr i)"
| "py_int _ = Inl TypeError"

text \<open>\<^verbatim>\<open>float(x)\<close>.\<close>

fun py_float :: "builtins \<Rightarrow> json \<Rightarrow> pyexc + pyfloat" where
  "py_float B (JFloat f) = Inr f"
| "py_float B (JInt i) = (case float_of_int B i of None \<Rightarrow> Inl OverflowError | Some f \<Rightarrow> Inr f)"
| "py_float B (JBool b) = Inr (Fin (if b then 1 else 0))"
| "py_float B (JStr s) = (case float_of_str B s of None \<Rightarrow> Inl ValueError | Some f \<Rightarrow> Inr f)"
| "py_float B _ = Inl TypeError"

text \<open>\<^verbatim>\<open>x < 0\<close> on a float: false for NaN.\<close>

fun float_negative :: "pyfloat \<Rightarrow> bool" where
  "float_negative (Fin q) = (q < 0)"
| "float_negative NInf = True"
| "float_negative _ = False"

text \<open>\<^verbatim>\<open>f'{x}'\<close>: a string is rendered as itself.\<close>

fun py_str :: "builtins \<Rightarrow> json \<Rightarrow> string" where
  "py_str B (JStr s) = s"
| "py_str B v = format_value B v"


text \<open>\<^verbatim>\<open>record[key]\<close> on a dict returned by the ERP.\<close>

definition rec_get :: "(string \<times> json) list \<Rightarrow> string \<Rightarrow> pyexc + json" where
  "rec_get r k = py_getitem (JObj r) k"

text \<open>Sequencing of computations that may raise.\<close>

definition bind_exc :: "pyexc + 'a \<Rightarrow> ('a \<Rightarrow> pyexc + 'b) \<Rightarrow> pyexc + 'b" where
  "bind_exc m f = (case m of Inl e \<Rightarrow> Inl e | Inr a \<Rightarrow> f a)"

fun map_exc :: "('a \<Rightarrow> pyexc + 'b) \<Rightarrow> 'a list \<Rightarrow> pyexc + 'b list" where
  "map_exc f [] = Inr []"
| "map_exc f (x # xs) =
     bind_exc (f x) (\<lambda>y. bind_exc (map_exc f xs) (\<lambda>ys. Inr (y # ys)))"

section \<open>Configuration, requests, responses\<close>

text \<open>
  The module reads its configuration from the process environment once, when it is
  loaded. The environment is a partial map from variable names to values.
\<close>

record config =
  ODOO_URL :: "string option"
  ODOO_DB :: "string option"
  ODOO_USERNAME :: "string option"
  ODOO_PASSWORD :: "string option"
  CLIENT_ID :: "string option"
  CLIENT_SECRET :: "string option"
  VERIFY_SSL :: bool

definition load_config :: "(string \<Rightarrow> string option) \<Rightarrow> config" where
  "load_config env =
     \<lparr> ODOO_URL = env ''ODOO_URL'',
       ODOO_DB = env ''ODOO_DB'',
       ODOO_USERNAME = env ''ODOO_USERNAME'',
       ODOO_PASSWORD = env ''ODOO_PASSWORD'',
       CLIENT_ID = env ''CLIENT_ID'',
       CLIENT_SECRET = env ''CLIENT_SECRET'',
       VERIFY_SSL =
         (lower (case env ''VERIFY_SSL'' of None \<Rightarrow> ''false'' | Some v \<Rightarrow> v) = ''true'') \<rparr>"

text \<open>Truthiness of an environment value: set and not empty.\<close>

fun env_truthy :: "string option \<Rightarrow> bool" where
  "env_truthy None = False"
| "env_truthy (Some v) = (v \<noteq> [])"

text \<open>
  The request body is kept with the outcome of \<^verbatim>\<open>json.loads\<close> on it: \<open>Absent\<close> is a
  missing, \<^verbatim>\<open>None\<close> or empty body (\<^verbatim>\<open>event.get('body')\<close> is falsy), \<open>Malformed\<close> a body
  on which \<^verbatim>\<open>json.loads\<close> raises \<^verbatim>\<open>JSONDecodeError\<close>, \<open>Parsed v\<close> a body that parses
  to \<open>v\<close>. The keys of a parsed object are distinct.
\<close>

datatype body = Absent | Malformed | Parsed json

record event =
  ev_method :: "string option"
  ev_rawPath :: "string option"
  ev_headers :: "(string \<times> string) list"
  ev_query :: "(string \<times> string) list"
  ev_body :: body

text \<open>
  A response: the status code, the headers when the handler sets them, and the value
  that \<^verbatim>\<open>json.dumps\<close> serialises into the body (\<open>None\<close>: no body).
\<close>

record response =
  statusCode :: nat
  headers :: "(string \<times> string) list option"
  body :: "json option"

definition error_response :: "nat \<Rightarrow> string \<Rightarrow> response" where
  "error_response code msg =
     \<lparr> statusCode = code, headers = None, body = Some (JObj [(''error'', JStr msg)]) \<rparr>"

definition json_headers :: "(string \<times> string) list" where
  "json_headers =
     [(''Access-Control-Allow-Origin'', ''*''), (''Content-Type'', ''application/json'')]"

definition json_response :: "nat \<Rightarrow> (string \<times> json) list \<Rightarrow> response" where
  "json_response code kvs =
     \<lparr> statusCode = code, headers = Some json_headers, body = Some (JObj kvs) \<rparr>"

section \<open>The ERP\<close>

text \<open>
  The ERP is outside the program. It is a parameter: one function for each remote
  method the handlers call, acting on a state \<open>'s\<close> of the ERP's own and answering with
  a result or an exception. \<open>erp_authenticate\<close> is \<^verbatim>\<open>common.authenticate\<close> over a channel
  with the given TLS context, to the configured URL, with the configured database, user
  and password; the others are \<^verbatim>\<open>models.execute_kw\<close> with the session identifier, the
  model, and the arguments of the method (the database and the password, which every
  call repeats, are left out). A search domain is a list of clauses; \<open>OrOp\<close> is the
  marker \<^verbatim>\<open>'|'\<close>.
\<close>

datatype verify_mode = CERT_NONE | CERT_REQUIRED

record ssl_context =
  check_hostname :: bool
  verify_mode :: verify_mode

datatype clause = OrOp | Cond string string json

record search_kw =
  kw_limit :: int
  kw_offset :: int
  kw_order :: string

datatype rpc_call =
    Authenticate ssl_context
  | Search string "clause list" "search_kw option"
  | SearchCount string "clause list"
  | Read string json "string list"
  | Create string "(string \<times> json) list"
  | Write string json "(string \<times> json) list"

record 's erp =
  erp_authenticate ::
    "ssl_context \<Rightarrow> string option \<Rightarrow> string option \<Rightarrow> string option \<Rightarrow> string option \<Rightarrow> 's
       \<Rightarrow> (pyexc + json) \<times> 's"
  erp_search ::
    "json \<Rightarrow> string \<Rightarrow> clause list \<Rightarrow> search_kw option \<Rightarrow> 's \<Rightarrow> (pyexc + int list) \<times> 's"
  erp_search_count :: "json \<Rightarrow> string \<Rightarrow> clause list \<Rightarrow> 's \<Rightarrow> (pyexc + int) \<times> 's"
  erp_read ::
    "json \<Rightarrow> string \<Rightarrow> json \<Rightarrow> string list \<Rightarrow> 's \<Rightarrow> (pyexc + (string \<times> json) list list) \<times> 's"
  erp_create :: "json \<Rightarrow> string \<Rightarrow> (string \<times> json) list \<Rightarrow> 's \<Rightarrow> (pyexc + int) \<times> 's"
  erp_write ::
    "json \<Rightarrow> string \<Rightarrow> json \<Rightarrow> (string \<times> json) list \<Rightarrow> 's \<Rightarrow> (pyexc + bool) \<times> 's"

text \<open>
  A run of a handler threads the ERP's state and the list of remote calls issued so
  far, oldest first.
\<close>

type_synonym 's world = "'s \<times> rpc_call list"

type_synonym ('a, 's) rpc = "'s world \<Rightarrow> (pyexc + 'a) \<times> 's world"

definition issue :: "rpc_call \<Rightarrow> ('s \<Rightarrow> (pyexc + 'a) \<times> 's) \<Rightarrow> ('a, 's) rpc" where
  "issue c f w = (case f (fst w) of (r, s') \<Rightarrow> (r, (s', snd w @ [c])))"

definition done_rpc :: "pyexc + 'a \<Rightarrow> ('a, 's) rpc" where
  "done_rpc r w = (r, w)"

definition bind_rpc :: "('a, 's) rpc \<Rightarrow> ('a \<Rightarrow> ('b, 's) rpc) \<Rightarrow> ('b, 's) rpc" where
  "bind_rpc m f w = (case m w of (Inl e, w') \<Rightarrow> (Inl e, w') | (Inr a, w') \<Rightarrow> f a w')"

definition call_authenticate :: "'s erp \<Rightarrow> ssl_context \<Rightarrow> config \<Rightarrow> (json, 's) rpc" where
  "call_authenticate E ctx cfg =
     issue (Authenticate ctx)
       (erp_authenticate E ctx (ODOO_URL cfg) (ODOO_DB cfg) (ODOO_USERNAME cfg) (ODOO_PASSWORD cfg))"

definition call_search ::
  "'s erp \<Rightarrow> json \<Rightarrow> string \<Rightarrow> clause list \<Rightarrow> search_kw option \<Rightarrow> (int list, 's) rpc" where
  "call_search E uid m cs kw = issue (Search m cs kw) (erp_search E uid m cs kw)"

definition call_search_count :: "'s erp \<Rightarrow> json \<Rightarrow> string \<Rightarrow> clause list \<Rightarrow> (int, 's) rpc" where
  "call_search_count E uid m cs = issue (SearchCount m cs) (erp_search_count E uid m cs)"

definition call_read ::
  "'s erp \<Rightarrow> json \<Rightarrow> string \<Rightarrow> json \<Rightarrow> string list \<Rightarrow> ((string \<times> json) list list, 's) rpc" where
  "call_read E uid m ids fs = issue (Read m ids fs) (erp_read E uid m ids fs)"

definition call_create ::
  "'s erp \<Rightarrow> json \<Rightarrow> string \<Rightarrow> (string \<times> json) list \<Rightarrow> (int, 's) rpc" where
  "call_create E uid m vals = issue (Create m vals) (erp_create E uid m vals)"

definition call_write ::
  "'s erp \<Rightarrow> json \<Rightarrow> string \<Rightarrow> json \<Rightarrow> (string \<times> json) list \<Rightarrow> (bool, 's) rpc" where
  "call_write E uid m ids vals = issue (Write m ids vals) (erp_write E uid m ids vals)"

section \<open>authenticate_request\<close>

text \<open>
  The loop over the request headers: the last header whose lower-cased name is
  \<^verbatim>\<open>x-client-id\<close> (\<^verbatim>\<open>x-client-secret\<close>) gives the received id (secret).
\<close>

fun received_credentials ::
  "(string \<times> string) list \<Rightarrow> string option \<times> string option \<Rightarrow> string option \<times> string option" where
  "received_credentials [] acc = acc"
| "received_credentials ((k, v) # hs) (rid, rsec) =
     (if lower k = ''x-client-id'' then received_credentials hs (Some v, rsec)
      else if lower k = ''x-client-secret'' then received_credentials hs (rid, Some v)
      else received_credentials hs (rid, rsec))"

definition credentials_ok :: "config \<Rightarrow> event \<Rightarrow> bool" where
  "credentials_ok cfg ev =
     (case received_credentials (ev_headers ev) (None, None) of
        (rid, rsec) \<Rightarrow> rid = CLIENT_ID cfg \<and> rsec = CLIENT_SECRET cfg)"

text \<open>
  \<^verbatim>\<open>ssl.create_default_context()\<close> verifies certificates and host names; the handler
  switches both off unless \<open>VERIFY_SSL\<close> holds.
\<close>

definition make_ssl_context :: "config \<Rightarrow> ssl_context" where
  "make_ssl_context cfg =
     (if \<not> VERIFY_SSL cfg then \<lparr> check_hostname = False, verify_mode = CERT_NONE \<rparr>
      else \<lparr> check_hostname = True, verify_mode = CERT_REQUIRED \<rparr>)"

text \<open>
  The result is the error response (\<open>Inl\<close>), or the session identifier \<open>uid\<close> with which
  the handler goes on (\<open>Inr\<close>).
\<close>

definition authenticate_request ::
  "config \<Rightarrow> 's erp \<Rightarrow> event \<Rightarrow> 's world \<Rightarrow> (response + json) \<times> 's world" where
  "authenticate_request cfg E ev w =
     (if env_truthy (CLIENT_ID cfg) \<and> env_truthy (CLIENT_SECRET cfg) \<and> \<not> credentials_ok cfg ev
      then (Inl (error_response 401 ''Unauthorized''), w)
      else
        (case call_authenticate E (make_ssl_context cfg) cfg w of
           (Inl e, w') \<Rightarrow>
             (Inl (error_response 500 (''Could not authenticate with Odoo: '' @ exc_str e)), w')
         | (Inr uid, w') \<Rightarrow>
             if \<not> truthy uid
             then (Inl (error_response 500
                     (''Could not authenticate with Odoo: '' @
                      ''Authentication failed. Please check credentials.'')), w')
             else (Inr uid, w')))"


section \<open>The handlers\<close>

text \<open>
  The part of a handler that reads and validates the request ends in one of three
  ways: an exception that the handler does not catch (\<open>Raise\<close>), a response returned
  at once (\<open>Return\<close>), or the values the handler goes on with (\<open>Next\<close>).
\<close>

datatype 'a step = Raise pyexc | Return response | Next 'a

definition step_of :: "pyexc + 'a \<Rightarrow> 'a step" where
  "step_of r = (case r of Inl e \<Rightarrow> Raise e | Inr a \<Rightarrow> Next a)"

text \<open>The method as the handlers read it again from the event, \<^verbatim>\<open>'GET'\<close> when absent.\<close>

definition method_of :: "event \<Rightarrow> string" where
  "method_of ev = (case ev_method ev of None \<Rightarrow> ''GET'' | Some m \<Rightarrow> m)"

definition query_int :: "(string \<times> string) list \<Rightarrow> string \<Rightarrow> int \<Rightarrow> pyexc + int" where
  "query_int q k d = (case map_of q k of None \<Rightarrow> Inr d | Some v \<Rightarrow> py_int (JStr v))"

definition query_str :: "(string \<times> string) list \<Rightarrow> string \<Rightarrow> json" where
  "query_str q k = (case map_of q k of None \<Rightarrow> JStr [] | Some v \<Rightarrow> JStr v)"

subsection \<open>handle_list_inventory\<close>

record list_params =
  p_search_term :: json
  p_limit :: int
  p_offset :: int
  p_category_id :: json

definition inventory_params :: "event \<Rightarrow> list_params step" where
  "inventory_params ev =
     (if method_of ev = ''POST'' then
        (case ev_body ev of
           Absent \<Rightarrow> Return (error_response 400 ''Request body is required for POST search'')
         | Malformed \<Rightarrow> Return (error_response 400 ''Invalid JSON in request body'')
         | Parsed d \<Rightarrow>
             step_of
               (bind_exc (py_get d ''product_name'' (JStr [])) (\<lambda>term.
                bind_exc (bind_exc (py_get d ''limit'' (JInt 100)) py_int) (\<lambda>lim.
                bind_exc (bind_exc (py_get d ''offset'' (JInt 0)) py_int) (\<lambda>off.
                bind_exc (py_get d ''category_id'' (JStr [])) (\<lambda>cat.
                Inr \<lparr> p_search_term = term, p_limit = lim, p_offset = off,
                      p_category_id = cat \<rparr>))))))
      else
        step_of
          (bind_exc (query_int (ev_query ev) ''limit'' 100) (\<lambda>lim.
           bind_exc (query_int (ev_query ev) ''offset'' 0) (\<lambda>off.
           Inr \<lparr> p_search_term = query_str (ev_query ev) ''search'', p_limit = lim,
                 p_offset = off, p_category_id = query_str (ev_query ev) ''category_id'' \<rparr>))))"

definition inventory_domain :: "list_params \<Rightarrow> pyexc + clause list" where
  "inventory_domain p =
     (let d0 = [Cond ''type'' ''='' (JStr ''product'')];
          d1 = (if truthy (p_search_term p)
                then d0 @ [OrOp, Cond ''name'' ''ilike'' (p_search_term p),
                           Cond ''default_code'' ''ilike'' (p_search_term p)]
                else d0)
      in if truthy (p_category_id p)
         then bind_exc (py_int (p_category_id p))
                (\<lambda>c. Inr (d1 @ [Cond ''categ_id'' ''='' (JInt c)]))
         else Inr d1)"

definition inventory_fields :: "string list" where
  "inventory_fields =
     [''id'', ''name'', ''list_price'', ''standard_price'', ''currency_id'', ''product_tag_ids'']"

definition tag_fields :: "string list" where
  "tag_fields = [''id'', ''name'', ''color'']"

text \<open>The first loop over the products: \<^verbatim>\<open>all_tag_ids.extend(product['product_tag_ids'])\<close>.\<close>

fun collect_tag_ids :: "(string \<times> json) list list \<Rightarrow> pyexc + json list" where
  "collect_tag_ids [] = Inr []"
| "collect_tag_ids (p # ps) =
     bind_exc (rec_get p ''product_tag_ids'') (\<lambda>v.
     bind_exc (if truthy v then py_iter v else Inr []) (\<lambda>xs.
     bind_exc (collect_tag_ids ps) (\<lambda>ys. Inr (xs @ ys))))"

text \<open>
  \<^verbatim>\<open>list(set(all_tag_ids))\<close>: every element must be hashable; the result holds each
  element once. Python leaves the order of the result open; the model keeps the order
  of last occurrence.
\<close>

definition unique_ids :: "json list \<Rightarrow> pyexc + json list" where
  "unique_ids xs = (if list_all hashable xs then Inr (remdups xs) else Inl TypeError)"

text \<open>
  \<^verbatim>\<open>{tag['id']: tag for tag in tags}\<close> as the list of its items in insertion order; a
  later item with the same key replaces an earlier one, so lookup reads from the end.
\<close>

definition index_tags ::
  "(string \<times> json) list list \<Rightarrow> pyexc + (json \<times> (string \<times> json) list) list" where
  "index_tags tags =
     map_exc (\<lambda>t. bind_exc (rec_get t ''id'')
                (\<lambda>i. if hashable i then Inr (i, t) else Inl TypeError)) tags"

definition details_lookup ::
  "(json \<times> (string \<times> json) list) list \<Rightarrow> json \<Rightarrow> (string \<times> json) list option" where
  "details_lookup td k = map_of (rev td) k"

definition tag_entry :: "(string \<times> json) list \<Rightarrow> pyexc + json" where
  "tag_entry info =
     bind_exc (rec_get info ''id'') (\<lambda>i.
     bind_exc (rec_get info ''name'') (\<lambda>n.
     bind_exc (rec_get info ''color'') (\<lambda>c.
     Inr (JObj [(''id'', i), (''name'', n), (''color'', c)]))))"

definition product_tags_of ::
  "(json \<times> (string \<times> json) list) list \<Rightarrow> (string \<times> json) list \<Rightarrow> pyexc + json list" where
  "product_tags_of td p =
     bind_exc (rec_get p ''product_tag_ids'') (\<lambda>v.
     if truthy v then
       bind_exc (py_iter v) (\<lambda>ids.
       bind_exc (map_exc (\<lambda>tid.
                   if \<not> hashable tid then Inl TypeError
                   else (case details_lookup td tid of
                           None \<Rightarrow> Inr []
                         | Some info \<Rightarrow> bind_exc (tag_entry info) (\<lambda>e. Inr [e]))) ids)
         (\<lambda>xss. Inr (concat xss)))
     else Inr [])"

definition format_product ::
  "(json \<times> (string \<times> json) list) list \<Rightarrow> (string \<times> json) list \<Rightarrow> pyexc + json" where
  "format_product td p =
     bind_exc (product_tags_of td p) (\<lambda>tags.
     bind_exc (rec_get p ''id'') (\<lambda>i.
     bind_exc (rec_get p ''name'') (\<lambda>n.
     bind_exc (rec_get p ''list_price'') (\<lambda>price.
     bind_exc (rec_get p ''standard_price'') (\<lambda>cost.
     bind_exc (rec_get p ''currency_id'') (\<lambda>cur.
     bind_exc (if truthy cur then py_index cur 0 else Inr JNull) (\<lambda>cur_id.
     bind_exc (if truthy cur then py_index cur 1 else Inr (JStr [])) (\<lambda>cur_name.
     Inr (JObj [(''id'', i), (''name'', n), (''price'', price), (''cost_price'', cost),
                (''currency'', JObj [(''id'', cur_id), (''name'', cur_name)]),
                (''tags'', JArr tags)])))))))))"

definition no_products_message :: "builtins \<Rightarrow> json \<Rightarrow> string" where
  "no_products_message B term =
     (if truthy term then ''No products found matching: '' @ py_str B term
      else ''No products found'')"

definition empty_inventory_response :: "builtins \<Rightarrow> list_params \<Rightarrow> response" where
  "empty_inventory_response B p =
     json_response 200
       [(''success'', JBool True), (''found'', JBool False), (''data'', JArr []),
        (''total_count'', JInt 0), (''limit'', JInt (p_limit p)),
        (''offset'', JInt (p_offset p)),
        (''message'', JStr (no_products_message B (p_search_term p)))]"

definition pagination :: "int \<Rightarrow> list_params \<Rightarrow> json" where
  "pagination cnt p =
     JObj [(''total_count'', JInt cnt), (''limit'', JInt (p_limit p)),
           (''offset'', JInt (p_offset p)),
           (''has_more'', JBool (p_offset p + p_limit p < cnt))]"

definition inventory_response ::
  "builtins \<Rightarrow> list_params \<Rightarrow> string \<Rightarrow> json list \<Rightarrow> int \<Rightarrow> response" where
  "inventory_response B p mth formatted cnt =
     json_response 200
       [(''success'', JBool True), (''found'', JBool (0 < length formatted)),
        (''data'', JArr formatted),
        (''pagination'', pagination cnt p),
        (''filters_applied'',
           JObj [(''search_term'', p_search_term p), (''category_id'', p_category_id p),
                 (''search_method'', JStr mth)]),
        (''message'',
           JStr (if 0 < length formatted
                 then ''Found '' @ str_of_int (int (length formatted)) @ '' product(s)''
                 else no_products_message B (p_search_term p)))]"

text \<open>The body of the handler's \<^verbatim>\<open>try\<close> block.\<close>

definition inventory_query ::
  "builtins \<Rightarrow> 's erp \<Rightarrow> json \<Rightarrow> list_params \<Rightarrow> string \<Rightarrow> (response, 's) rpc" where
  "inventory_query B E uid p mth =
     bind_rpc (done_rpc (inventory_domain p)) (\<lambda>domain.
     bind_rpc (call_search E uid ''product.product'' domain
                 (Some \<lparr> kw_limit = p_limit p, kw_offset = p_offset p, kw_order = ''name'' \<rparr>))
       (\<lambda>product_ids.
     if product_ids = [] then done_rpc (Inr (empty_inventory_response B p))
     else
       bind_rpc (call_read E uid ''product.product'' (JArr (map JInt product_ids))
                   inventory_fields) (\<lambda>products.
       bind_rpc (call_search_count E uid ''product.product'' domain) (\<lambda>total_count.
       bind_rpc (done_rpc (bind_exc (collect_tag_ids products) unique_ids)) (\<lambda>unique_tag_ids.
       bind_rpc (if unique_tag_ids \<noteq> []
                 then bind_rpc (call_read E uid ''product.tag'' (JArr unique_tag_ids) tag_fields)
                        (\<lambda>tags. done_rpc (index_tags tags))
                 else done_rpc (Inr [])) (\<lambda>tag_details.
       bind_rpc (done_rpc (map_exc (format_product tag_details) products)) (\<lambda>formatted.
       done_rpc (Inr (inventory_response B p mth formatted total_count)))))))))"

definition handle_list_inventory ::
  "builtins \<Rightarrow> config \<Rightarrow> 's erp \<Rightarrow> event \<Rightarrow> (response, 's) rpc" where
  "handle_list_inventory B cfg E ev w =
     (case authenticate_request cfg E ev w of
        (Inl auth_error, w1) \<Rightarrow> (Inr auth_error, w1)
      | (Inr uid, w1) \<Rightarrow>
          (case inventory_params ev of
             Raise e \<Rightarrow> (Inl e, w1)
           | Return r \<Rightarrow> (Inr r, w1)
           | Next p \<Rightarrow>
               (case inventory_query B E uid p (method_of ev) w1 of
                  (Inr r, w2) \<Rightarrow> (Inr r, w2)
                | (Inl (Fault fs txt), w2) \<Rightarrow>
                    (Inr (error_response 500 (''Odoo API error: '' @ fs)), w2)
                | (Inl e, w2) \<Rightarrow>
                    (Inr (error_response 500 ''An unexpected server error occurred.''), w2))))"

subsection \<open>handle_list_tags\<close>

record tag_params =
  t_search_term :: json
  t_limit :: int
  t_offset :: int

definition tags_params :: "event \<Rightarrow> tag_params step" where
  "tags_params ev =
     (if method_of ev = ''POST'' then
        (case ev_body ev of
           Absent \<Rightarrow> Return (error_response 400 ''Request body is required for POST search'')
         | Malformed \<Rightarrow> Return (error_response 400 ''Invalid JSON in request body'')
         | Parsed d \<Rightarrow>
             step_of
               (bind_exc (py_get d ''search'' (JStr [])) (\<lambda>dflt.
                bind_exc (py_get d ''tag_name'' dflt) (\<lambda>term.
                bind_exc (bind_exc (py_get d ''limit'' (JInt 100)) py_int) (\<lambda>lim.
                bind_exc (bind_exc (py_get d ''offset'' (JInt 0)) py_int) (\<lambda>off.
                Inr \<lparr> t_search_term = term, t_limit = lim, t_offset = off \<rparr>))))))
      else
        step_of
          (bind_exc (query_int (ev_query ev) ''limit'' 100) (\<lambda>lim.
           bind_exc (query_int (ev_query ev) ''offset'' 0) (\<lambda>off.
           Inr \<lparr> t_search_term = query_str (ev_query ev) ''search'', t_limit = lim,
                 t_offset = off \<rparr>))))"

definition tags_domain :: "tag_params \<Rightarrow> clause list" where
  "tags_domain p =
     (if truthy (t_search_term p) then [Cond ''name'' ''ilike'' (t_search_term p)] else [])"

definition empty_tags_response :: "tag_params \<Rightarrow> response" where
  "empty_tags_response p =
     json_response 200
       [(''success'', JBool True), (''data'', JArr []), (''total_count'', JInt 0),
        (''limit'', JInt (t_limit p)), (''offset'', JInt (t_offset p))]"

definition tags_response :: "tag_params \<Rightarrow> string \<Rightarrow> json list \<Rightarrow> int \<Rightarrow> response" where
  "tags_response p mth formatted cnt =
     json_response 200
       [(''success'', JBool True), (''data'', JArr formatted),
        (''pagination'',
           JObj [(''total_count'', JInt cnt), (''limit'', JInt (t_limit p)),
                 (''offset'', JInt (t_offset p)),
                 (''has_more'', JBool (t_offset p + t_limit p < cnt))]),
        (''filters_applied'',
           JObj [(''search_term'', t_search_term p), (''search_method'', JStr mth)])]"

definition tags_query :: "'s erp \<Rightarrow> json \<Rightarrow> tag_params \<Rightarrow> string \<Rightarrow> (response, 's) rpc" where
  "tags_query E uid p mth =
     bind_rpc (call_search E uid ''product.tag'' (tags_domain p)
                 (Some \<lparr> kw_limit = t_limit p, kw_offset = t_offset p, kw_order = ''name'' \<rparr>))
       (\<lambda>tag_ids.
     if tag_ids = [] then done_rpc (Inr (empty_tags_response p))
     else
       bind_rpc (call_read E uid ''product.tag'' (JArr (map JInt tag_ids)) tag_fields) (\<lambda>tags.
       bind_rpc (call_search_count E uid ''product.tag'' (tags_domain p)) (\<lambda>total_count.
       bind_rpc (done_rpc (map_exc tag_entry tags)) (\<lambda>formatted.
       done_rpc (Inr (tags_response p mth formatted total_count))))))"

definition handle_list_tags :: "config \<Rightarrow> 's erp \<Rightarrow> event \<Rightarrow> (response, 's) rpc" where
  "handle_list_tags cfg E ev w =
     (case authenticate_request cfg E ev w of
        (Inl auth_error, w1) \<Rightarrow> (Inr auth_error, w1)
      | (Inr uid, w1) \<Rightarrow>
          (case tags_params ev of
             Raise e \<Rightarrow> (Inl e, w1)
           | Return r \<Rightarrow> (Inr r, w1)
           | Next p \<Rightarrow>
               (case tags_query E uid p (method_of ev) w1 of
                  (Inr r, w2) \<Rightarrow> (Inr r, w2)
                | (Inl e, w2) \<Rightarrow>
                    (Inr (error_response 500 (''Could not retrieve tags: '' @ exc_str e)), w2))))"


subsection \<open>handle_create_tag\<close>

record new_tag =
  nt_name :: string
  nt_color :: json

definition create_tag_params :: "event \<Rightarrow> new_tag step" where
  "create_tag_params ev =
     (case ev_body ev of
        Absent \<Rightarrow> Return (error_response 400 ''Request body is required'')
      | Malformed \<Rightarrow> Return (error_response 400 ''Invalid JSON in request body'')
      | Parsed d \<Rightarrow>
          (case py_in ''name'' d of
             Inl e \<Rightarrow> Raise e
           | Inr False \<Rightarrow> Return (error_response 400 ''Tag name is required'')
           | Inr True \<Rightarrow>
               (case bind_exc (py_getitem d ''name'') py_strip of
                  Inl e \<Rightarrow> Raise e
                | Inr tag_name \<Rightarrow>
                    if tag_name = [] then Return (error_response 400 ''Tag name cannot be empty'')
                    else step_of (bind_exc (py_get d ''color'' (JInt 0))
                           (\<lambda>c. Inr \<lparr> nt_name = tag_name, nt_color = c \<rparr>)))))"

definition name_is :: "string \<Rightarrow> clause list" where
  "name_is n = [Cond ''name'' ''='' (JStr n)]"

definition create_tag_query :: "'s erp \<Rightarrow> json \<Rightarrow> new_tag \<Rightarrow> (response, 's) rpc" where
  "create_tag_query E uid t =
     bind_rpc (call_search E uid ''product.tag'' (name_is (nt_name t)) None) (\<lambda>existing_tags.
     if existing_tags \<noteq> []
     then done_rpc (Inr (error_response 409
            (''Tag '' @ [quote] @ nt_name t @ [quote] @ '' already exists'')))
     else
       bind_rpc (call_create E uid ''product.tag''
                   [(''name'', JStr (nt_name t)), (''color'', nt_color t)]) (\<lambda>tag_id.
       done_rpc (Inr (json_response 201
         [(''success'', JBool True), (''message'', JStr ''Tag created successfully''),
          (''data'', JObj [(''id'', JInt tag_id), (''name'', JStr (nt_name t)),
                           (''color'', nt_color t)])]))))"

definition handle_create_tag :: "config \<Rightarrow> 's erp \<Rightarrow> event \<Rightarrow> (response, 's) rpc" where
  "handle_create_tag cfg E ev w =
     (case authenticate_request cfg E ev w of
        (Inl auth_error, w1) \<Rightarrow> (Inr auth_error, w1)
      | (Inr uid, w1) \<Rightarrow>
          (case create_tag_params ev of
             Raise e \<Rightarrow> (Inl e, w1)
           | Return r \<Rightarrow> (Inr r, w1)
           | Next t \<Rightarrow>
               (case create_tag_query E uid t w1 of
                  (Inr r, w2) \<Rightarrow> (Inr r, w2)
                | (Inl e, w2) \<Rightarrow>
                    (Inr (error_response 500 (''Could not create tag: '' @ exc_str e)), w2))))"

subsection \<open>Prices\<close>

text \<open>
  \<^verbatim>\<open>try: x = float(v); if x < 0: return 400 ... except (ValueError, TypeError): return 400\<close>,
  with the two messages of the field. Another exception of \<^verbatim>\<open>float\<close> is not caught.
\<close>

definition read_price :: "builtins \<Rightarrow> json \<Rightarrow> string \<Rightarrow> string \<Rightarrow> pyfloat step" where
  "read_price B v negative_msg invalid_msg =
     (case py_float B v of
        Inr x \<Rightarrow> if float_negative x then Return (error_response 400 negative_msg) else Next x
      | Inl ValueError \<Rightarrow> Return (error_response 400 invalid_msg)
      | Inl TypeError \<Rightarrow> Return (error_response 400 invalid_msg)
      | Inl e \<Rightarrow> Raise e)"

subsection \<open>handle_create_product\<close>

record new_product =
  np_name :: string
  np_sales_price :: pyfloat
  np_cost_price :: "pyfloat option"
  np_tag_ids :: json

definition is_list :: "json \<Rightarrow> bool" where
  "is_list v = (case v of JArr xs \<Rightarrow> True | _ \<Rightarrow> False)"

definition py_len :: "json \<Rightarrow> nat" where
  "py_len v = (case v of JArr xs \<Rightarrow> length xs | _ \<Rightarrow> 0)"

text \<open>
  The check of \<^verbatim>\<open>tag_ids\<close>, the last part of the first \<^verbatim>\<open>try\<close> block: its search is
  issued there, so an exception of the ERP is not caught by the handler.
\<close>

definition check_tag_ids :: "'s erp \<Rightarrow> json \<Rightarrow> json \<Rightarrow> 's world \<Rightarrow> json step \<times> 's world" where
  "check_tag_ids E uid tag_ids w =
     (if truthy tag_ids \<and> \<not> is_list tag_ids
      then (Return (error_response 400 ''tag_ids must be an array of tag IDs''), w)
      else if truthy tag_ids then
        (case call_search E uid ''product.tag'' [Cond ''id'' ''in'' tag_ids] None w of
           (Inl e, w') \<Rightarrow> (Raise e, w')
         | (Inr existing_tags, w') \<Rightarrow>
             if length existing_tags \<noteq> py_len tag_ids
             then (Return (error_response 400 ''One or more tag IDs do not exist''), w')
             else (Next tag_ids, w'))
      else (Next tag_ids, w))"

definition create_product_params ::
  "builtins \<Rightarrow> 's erp \<Rightarrow> json \<Rightarrow> event \<Rightarrow> 's world \<Rightarrow> new_product step \<times> 's world" where
  "create_product_params B E uid ev w =
     (case ev_body ev of
        Absent \<Rightarrow> (Return (error_response 400 ''Request body is required''), w)
      | Malformed \<Rightarrow> (Return (error_response 400 ''Invalid JSON in request body''), w)
      | Parsed d \<Rightarrow>
          (case py_in ''name'' d of
             Inl e \<Rightarrow> (Raise e, w)
           | Inr False \<Rightarrow> (Return (error_response 400 ''name is required''), w)
           | Inr True \<Rightarrow>
               if py_in ''cost'' d = Inr False \<and> py_in ''price'' d = Inr False
               then (Return (error_response 400
                       (''price is required (or use legacy '' @ [quote] @ ''cost'' @ [quote] @
                        '' field)'')), w)
               else
                 (case bind_exc (py_getitem d ''name'') py_strip of
                    Inl e \<Rightarrow> (Raise e, w)
                  | Inr product_name \<Rightarrow>
                      if product_name = []
                      then (Return (error_response 400 ''Product name cannot be empty''), w)
                      else
                        (case bind_exc (py_get d ''cost'' (JInt 0)) (py_get d ''price'') of
                           Inl e \<Rightarrow> (Raise e, w)
                         | Inr pv \<Rightarrow>
                             (case read_price B pv ''Price must be a positive number''
                                     ''Price must be a valid number'' of
                                Raise e \<Rightarrow> (Raise e, w)
                              | Return r \<Rightarrow> (Return r, w)
                              | Next sales_price \<Rightarrow>
                                  (case (if py_in ''cost_price'' d = Inr True
                                         then (case py_getitem d ''cost_price'' of
                                                 Inl e \<Rightarrow> Raise e
                                               | Inr cv \<Rightarrow>
                                                   (case read_price B cv
                                                           ''Cost price must be a positive number''
                                                           ''Cost price must be a valid number'' of
                                                      Raise e \<Rightarrow> Raise e
                                                    | Return r \<Rightarrow> Return r
                                                    | Next c \<Rightarrow> Next (Some c)))
                                         else Next None) of
                                     Raise e \<Rightarrow> (Raise e, w)
                                   | Return r \<Rightarrow> (Return r, w)
                                   | Next cost_price \<Rightarrow>
                                       (case py_get d ''tag_ids'' (JArr []) of
                                          Inl e \<Rightarrow> (Raise e, w)
                                        | Inr tv \<Rightarrow>
                                            (case check_tag_ids E uid tv w of
                                               (Raise e, w') \<Rightarrow> (Raise e, w')
                                             | (Return r, w') \<Rightarrow> (Return r, w')
                                             | (Next tag_ids, w') \<Rightarrow>
                                                 (Next \<lparr> np_name = product_name,
                                                          np_sales_price = sales_price,
                                                          np_cost_price = cost_price,
                                                          np_tag_ids = tag_ids \<rparr>, w')))))))))"

definition product_data :: "new_product \<Rightarrow> (string \<times> json) list" where
  "product_data p =
     [(''name'', JStr (np_name p)),
      (''list_price'', JFloat (np_sales_price p)),
      (''type'', JStr ''product''),
      (''sale_ok'', JBool True),
      (''purchase_ok'', JBool False),
      (''product_tag_ids'',
         (if truthy (np_tag_ids p) then JArr [JArr [JInt 6, JInt 0, np_tag_ids p]] else JArr []))]
     @ (case np_cost_price p of None \<Rightarrow> [] | Some c \<Rightarrow> [(''standard_price'', JFloat c)])"

text \<open>\<^verbatim>\<open>some_list[0]\<close> on a list of records.\<close>

definition first_record :: "(string \<times> json) list list \<Rightarrow> pyexc + (string \<times> json) list" where
  "first_record rs = (case rs of [] \<Rightarrow> Inl IndexError | r # _ \<Rightarrow> Inr r)"

text \<open>The tags of a record that was read back: one more read when the tag list is truthy.\<close>

definition read_tags_of :: "'s erp \<Rightarrow> json \<Rightarrow> (string \<times> json) list \<Rightarrow> (json list, 's) rpc" where
  "read_tags_of E uid r =
     bind_rpc (done_rpc (rec_get r ''product_tag_ids'')) (\<lambda>ids.
     if truthy ids
     then bind_rpc (call_read E uid ''product.tag'' ids tag_fields)
            (\<lambda>tags. done_rpc (Inr (map JObj tags)))
     else done_rpc (Inr []))"

definition create_product_query :: "'s erp \<Rightarrow> json \<Rightarrow> new_product \<Rightarrow> (response, 's) rpc" where
  "create_product_query E uid p =
     bind_rpc (call_search E uid ''product.product'' (name_is (np_name p)) None)
       (\<lambda>existing_products.
     if existing_products \<noteq> []
     then done_rpc (Inr (error_response 409
            (''Product '' @ [quote] @ np_name p @ [quote] @ '' already exists'')))
     else
       bind_rpc (call_create E uid ''product.product'' (product_data p)) (\<lambda>product_id.
       bind_rpc (call_read E uid ''product.product'' (JArr [JInt product_id])
                   [''id'', ''name'', ''standard_price'', ''list_price'', ''product_tag_ids''])
         (\<lambda>created_product_list.
       bind_rpc (done_rpc (first_record created_product_list)) (\<lambda>created_product.
       bind_rpc (read_tags_of E uid created_product) (\<lambda>product_tags.
       bind_rpc (done_rpc (rec_get created_product ''name'')) (\<lambda>n.
       bind_rpc (done_rpc (rec_get created_product ''standard_price'')) (\<lambda>cost.
       bind_rpc (done_rpc (rec_get created_product ''list_price'')) (\<lambda>sale.
       done_rpc (Inr (json_response 201
         [(''success'', JBool True), (''message'', JStr ''Product created successfully''),
          (''data'', JObj [(''id'', JInt product_id), (''name'', n), (''cost_price'', cost),
                           (''sale_price'', sale), (''tags'', JArr product_tags),
                           (''can_be_sold'', JBool True),
                           (''can_be_purchased'', JBool False)])]))))))))))"

definition handle_create_product ::
  "builtins \<Rightarrow> config \<Rightarrow> 's erp \<Rightarrow> event \<Rightarrow> (response, 's) rpc" where
  "handle_create_product B cfg E ev w =
     (case authenticate_request cfg E ev w of
        (Inl auth_error, w1) \<Rightarrow> (Inr auth_error, w1)
      | (Inr uid, w1) \<Rightarrow>
          (case create_product_params B E uid ev w1 of
             (Raise e, w2) \<Rightarrow> (Inl e, w2)
           | (Return r, w2) \<Rightarrow> (Inr r, w2)
           | (Next p, w2) \<Rightarrow>
               (case create_product_query E uid p w2 of
                  (Inr r, w3) \<Rightarrow> (Inr r, w3)
                | (Inl e, w3) \<Rightarrow>
                    (Inr (error_response 500 (''Could not create product: '' @ exc_str e)), w3))))"


subsection \<open>handle_update_product\<close>

record price_update =
  pu_name :: string
  pu_new_price :: pyfloat
  pu_update_cost_price :: json

definition update_product_params :: "builtins \<Rightarrow> event \<Rightarrow> price_update step" where
  "update_product_params B ev =
     (case ev_body ev of
        Absent \<Rightarrow> Return (error_response 400 ''Request body is required'')
      | Malformed \<Rightarrow> Return (error_response 400 ''Invalid JSON in request body'')
      | Parsed d \<Rightarrow>
          (case py_in ''product_name'' d of
             Inl e \<Rightarrow> Raise e
           | Inr False \<Rightarrow> Return (error_response 400 ''product_name is required'')
           | Inr True \<Rightarrow>
               if py_in ''price'' d = Inr False
               then Return (error_response 400 ''price is required'')
               else
                 (case bind_exc (py_getitem d ''product_name'') py_strip of
                    Inl e \<Rightarrow> Raise e
                  | Inr product_name \<Rightarrow>
                      if product_name = []
                      then Return (error_response 400 ''Product name cannot be empty'')
                      else
                        (case py_getitem d ''price'' of
                           Inl e \<Rightarrow> Raise e
                         | Inr pv \<Rightarrow>
                             (case read_price B pv ''Price must be a positive number''
                                     ''Price must be a valid number'' of
                                Raise e \<Rightarrow> Raise e
                              | Return r \<Rightarrow> Return r
                              | Next new_price \<Rightarrow>
                                  step_of (bind_exc (py_get d ''update_cost_price'' (JBool False))
                                    (\<lambda>u. Inr \<lparr> pu_name = product_name, pu_new_price = new_price,
                                                pu_update_cost_price = u \<rparr>)))))))"

definition name_like :: "string \<Rightarrow> clause list" where
  "name_like n = [Cond ''name'' ''ilike'' (JStr n)]"

definition match_entry :: "(string \<times> json) list \<Rightarrow> pyexc + json" where
  "match_entry p =
     bind_exc (rec_get p ''id'') (\<lambda>i.
     bind_exc (rec_get p ''name'') (\<lambda>n.
     Inr (JObj [(''id'', i), (''name'', n)])))"

definition not_found_response :: "string \<Rightarrow> response" where
  "not_found_response n =
     \<lparr> statusCode = 404, headers = None,
       body = Some (JObj
         [(''error'', JStr (''Product not found: '' @ n)),
          (''suggestion'', JStr ''Try using the search API to find the exact product name'')]) \<rparr>"

definition ambiguous_response :: "string \<Rightarrow> json list \<Rightarrow> response" where
  "ambiguous_response n matches =
     \<lparr> statusCode = 400, headers = None,
       body = Some (JObj
         [(''error'', JStr (''Multiple products found matching '' @ [quote] @ n @ [quote])),
          (''matches'', JArr matches),
          (''suggestion'', JStr ''Please use the exact product name'')]) \<rparr>"

definition update_data :: "price_update \<Rightarrow> (string \<times> json) list" where
  "update_data u =
     (''list_price'', JFloat (pu_new_price u)) #
     (if truthy (pu_update_cost_price u) then [(''standard_price'', JFloat (pu_new_price u))]
      else [])"

text \<open>The name search: the exact one, and the \<^verbatim>\<open>ilike\<close> one when the exact one is empty.\<close>

definition resolve_product :: "'s erp \<Rightarrow> json \<Rightarrow> string \<Rightarrow> (int list, 's) rpc" where
  "resolve_product E uid n =
     bind_rpc (call_search E uid ''product.product'' (name_is n) None) (\<lambda>product_ids.
     if product_ids = [] then call_search E uid ''product.product'' (name_like n) None
     else done_rpc (Inr product_ids))"

definition apply_update ::
  "'s erp \<Rightarrow> json \<Rightarrow> price_update \<Rightarrow> int \<Rightarrow> (response, 's) rpc" where
  "apply_update E uid u product_id =
     bind_rpc (call_read E uid ''product.product'' (JArr [JInt product_id])
                 [''id'', ''name'', ''list_price'', ''standard_price''])
       (\<lambda>current_product_list.
     bind_rpc (done_rpc (first_record current_product_list)) (\<lambda>current_product.
     bind_rpc (call_write E uid ''product.product'' (JArr [JInt product_id]) (update_data u))
       (\<lambda>written.
     bind_rpc (call_read E uid ''product.product'' (JArr [JInt product_id])
                 [''id'', ''name'', ''list_price'', ''standard_price'', ''product_tag_ids''])
       (\<lambda>updated_product_list.
     bind_rpc (done_rpc (first_record updated_product_list)) (\<lambda>updated_product.
     bind_rpc (read_tags_of E uid updated_product) (\<lambda>product_tags.
     bind_rpc (done_rpc (rec_get current_product ''list_price'')) (\<lambda>previous.
     bind_rpc (done_rpc (rec_get updated_product ''id'')) (\<lambda>i.
     bind_rpc (done_rpc (rec_get updated_product ''name'')) (\<lambda>n.
     bind_rpc (done_rpc (rec_get updated_product ''list_price'')) (\<lambda>new.
     bind_rpc (done_rpc (rec_get updated_product ''standard_price'')) (\<lambda>cost.
     done_rpc (Inr (json_response 200
       [(''success'', JBool True), (''message'', JStr ''Product price updated successfully''),
        (''data'', JObj [(''id'', i), (''name'', n), (''previous_price'', previous),
                         (''new_price'', new), (''cost_price'', cost),
                         (''cost_price_updated'', pu_update_cost_price u),
                         (''tags'', JArr product_tags)])])))))))))))))"

definition update_product_query :: "'s erp \<Rightarrow> json \<Rightarrow> price_update \<Rightarrow> (response, 's) rpc" where
  "update_product_query E uid u =
     bind_rpc (resolve_product E uid (pu_name u)) (\<lambda>product_ids.
     if product_ids = [] then done_rpc (Inr (not_found_response (pu_name u)))
     else if 1 < length product_ids then
       bind_rpc (call_read E uid ''product.product'' (JArr (map JInt product_ids))
                   [''id'', ''name'']) (\<lambda>products.
       bind_rpc (done_rpc (map_exc match_entry products)) (\<lambda>matches.
       done_rpc (Inr (ambiguous_response (pu_name u) matches))))
     else apply_update E uid u (hd product_ids))"

definition handle_update_product ::
  "builtins \<Rightarrow> config \<Rightarrow> 's erp \<Rightarrow> event \<Rightarrow> (response, 's) rpc" where
  "handle_update_product B cfg E ev w =
     (case authenticate_request cfg E ev w of
        (Inl auth_error, w1) \<Rightarrow> (Inr auth_error, w1)
      | (Inr uid, w1) \<Rightarrow>
          (case update_product_params B ev of
             Raise e \<Rightarrow> (Inl e, w1)
           | Return r \<Rightarrow> (Inr r, w1)
           | Next u \<Rightarrow>
               (case update_product_query E uid u w1 of
                  (Inr r, w2) \<Rightarrow> (Inr r, w2)
                | (Inl e, w2) \<Rightarrow>
                    (Inr (error_response 500 (''Could not update product: '' @ exc_str e)), w2))))"

section \<open>lambda_handler\<close>

text \<open>\<^verbatim>\<open>[part for part in raw_path.split('/') if part]\<close>.\<close>

fun split_slash :: "string \<Rightarrow> string \<Rightarrow> string list" where
  "split_slash cur [] = [rev cur]"
| "split_slash cur (c # s) =
     (if c = CHR ''/'' then rev cur # split_slash [] s else split_slash (c # cur) s)"

definition path_parts :: "event \<Rightarrow> string list" where
  "path_parts ev =
     filter (\<lambda>part. part \<noteq> [])
       (split_slash [] (case ev_rawPath ev of None \<Rightarrow> ''/'' | Some p \<Rightarrow> p))"

definition cors_response :: response where
  "cors_response =
     \<lparr> statusCode = 204,
       headers = Some
         [(''Access-Control-Allow-Origin'', ''*''),
          (''Access-Control-Allow-Methods'', ''GET, POST, PUT, DELETE, OPTIONS''),
          (''Access-Control-Allow-Headers'', ''Content-Type, x-client-id, x-client-secret'')],
       body = None \<rparr>"

text \<open>\<^verbatim>\<open>'tag_name' in data or 'search' in data\<close>, then \<^verbatim>\<open>'name' in data\<close>.\<close>

definition route_tags_post ::
  "config \<Rightarrow> 's erp \<Rightarrow> event \<Rightarrow> (response, 's) rpc" where
  "route_tags_post cfg E ev =
     (case ev_body ev of
        Absent \<Rightarrow> done_rpc (Inr (error_response 400 ''Request body is required for POST requests''))
      | Malformed \<Rightarrow> done_rpc (Inr (error_response 400 ''Invalid JSON in request body''))
      | Parsed d \<Rightarrow>
          (case py_in ''tag_name'' d of
             Inl e \<Rightarrow> done_rpc (Inl e)
           | Inr has_tag_name \<Rightarrow>
               if has_tag_name \<or> py_in ''search'' d = Inr True then handle_list_tags cfg E ev
               else if py_in ''name'' d = Inr True then handle_create_tag cfg E ev
               else done_rpc (Inr (error_response 400
                      (''Invalid request body. For search: use '' @ [quote] @ ''tag_name'' @ [quote]
                       @ '' or '' @ [quote] @ ''search'' @ [quote] @ ''. For create: use ''
                       @ [quote] @ ''name'' @ [quote])))))"

definition route_products_post ::
  "builtins \<Rightarrow> config \<Rightarrow> 's erp \<Rightarrow> event \<Rightarrow> (response, 's) rpc" where
  "route_products_post B cfg E ev =
     (case ev_body ev of
        Absent \<Rightarrow> done_rpc (Inr (error_response 400 ''Request body is required''))
      | Malformed \<Rightarrow> done_rpc (Inr (error_response 400 ''Invalid JSON in request body''))
      | Parsed d \<Rightarrow>
          (case py_in ''product_name'' d of
             Inl e \<Rightarrow> done_rpc (Inl e)
           | Inr has_product_name \<Rightarrow>
               if has_product_name \<and> py_in ''price'' d = Inr True
               then handle_update_product B cfg E ev
               else if py_in ''name'' d = Inr True
                       \<and> (py_in ''cost'' d = Inr True \<or> py_in ''price'' d = Inr True)
               then handle_create_product B cfg E ev
               else done_rpc (Inr (error_response 400
                      (''Invalid request body. For create: use '' @ [quote] @ ''name'' @ [quote]
                       @ '' and '' @ [quote] @ ''price'' @ [quote] @ '' (or legacy '' @ [quote]
                       @ ''cost'' @ [quote] @ ''). For update: use '' @ [quote]
                       @ ''product_name'' @ [quote] @ '' and '' @ [quote] @ ''price''
                       @ [quote])))))"

text \<open>The body of the router's \<^verbatim>\<open>try\<close> block, for a method \<open>m\<close> that has passed the two
  checks before it.\<close>

definition route :: "builtins \<Rightarrow> config \<Rightarrow> 's erp \<Rightarrow> event \<Rightarrow> string \<Rightarrow> (response, 's) rpc" where
  "route B cfg E ev m =
     (case path_parts ev of
        [] \<Rightarrow>
          if m = ''GET'' \<or> m = ''POST'' then handle_list_inventory B cfg E ev
          else done_rpc (Inr (error_response 405 ''Method Not Allowed for inventory listing''))
      | part # _ \<Rightarrow>
          if part = ''tags'' then
            (if m = ''GET'' then handle_list_tags cfg E ev
             else if m = ''POST'' then route_tags_post cfg E ev
             else done_rpc (Inr (error_response 405 ''Method Not Allowed for tags'')))
          else if part = ''search'' then
            (if m = ''POST'' then handle_list_inventory B cfg E ev
             else done_rpc (Inr (error_response 405 ''Search endpoint only supports POST method'')))
          else if part = ''products'' then
            (if m = ''POST'' then route_products_post B cfg E ev
             else if m = ''PUT'' then handle_update_product B cfg E ev
             else done_rpc (Inr (error_response 405 ''Method Not Allowed for products'')))
          else done_rpc (Inr (error_response 404 ''Endpoint not found'')))"

definition lambda_handler ::
  "builtins \<Rightarrow> config \<Rightarrow> 's erp \<Rightarrow> event \<Rightarrow> 's world \<Rightarrow> response \<times> 's world" where
  "lambda_handler B cfg E ev w =
     (if ev_method ev = Some ''OPTIONS'' then (cors_response, w)
      else
        (case ev_method ev of
           None \<Rightarrow> (error_response 405 ''Method Not Allowed'', w)
         | Some m \<Rightarrow>
             if m \<notin> set [''GET'', ''POST'', ''PUT'', ''DELETE'']
             then (error_response 405 ''Method Not Allowed'', w)
             else
               (case route B cfg E ev m w of
                  (Inr r, w') \<Rightarrow> (r, w')
                | (Inl e, w') \<Rightarrow> (error_response 500 ''Internal server error'', w'))))"


section \<open>Observations on a run\<close>

definition calls :: "'s world \<Rightarrow> rpc_call list" where
  "calls w = snd w"

fun is_mutation :: "rpc_call \<Rightarrow> bool" where
  "is_mutation (Create m vals) = True"
| "is_mutation (Write m ids vals) = True"
| "is_mutation _ = False"

fun method_name :: "rpc_call \<Rightarrow> string" where
  "method_name (Authenticate ctx) = ''authenticate''"
| "method_name (Search m cs kw) = ''search''"
| "method_name (SearchCount m cs) = ''search_count''"
| "method_name (Read m ids fs) = ''read''"
| "method_name (Create m vals) = ''create''"
| "method_name (Write m ids vals) = ''write''"

fun is_tag_read :: "rpc_call \<Rightarrow> bool" where
  "is_tag_read (Read m ids fs) = (m = ''product.tag'')"
| "is_tag_read _ = False"

text \<open>The value under a top-level key of a response body.\<close>

definition body_field :: "response \<Rightarrow> string \<Rightarrow> json option" where
  "body_field r k = (case body r of Some (JObj kvs) \<Rightarrow> map_of kvs k | _ \<Rightarrow> None)"


text \<open>
  The rows of the router's table that end in a call of a handler; every other request
  is answered by the router itself.
\<close>

definition body_has :: "event \<Rightarrow> string \<Rightarrow> bool" where
  "body_has ev k = (case ev_body ev of Parsed d \<Rightarrow> py_in k d = Inr True | _ \<Rightarrow> False)"

definition dispatches :: "event \<Rightarrow> bool" where
  "dispatches ev =
     (case ev_method ev of
        None \<Rightarrow> False
      | Some m \<Rightarrow>
          (case path_parts ev of
             [] \<Rightarrow> m = ''GET'' \<or> m = ''POST''
           | part # _ \<Rightarrow>
               (part = ''tags'' \<and>
                  (m = ''GET'' \<or>
                   (m = ''POST'' \<and>
                      (body_has ev ''tag_name'' \<or> body_has ev ''search'' \<or> body_has ev ''name''))))
               \<or> (part = ''search'' \<and> m = ''POST'')
               \<or> (part = ''products'' \<and>
                     (m = ''PUT'' \<or>
                      (m = ''POST'' \<and>
                         ((body_has ev ''product_name'' \<and> body_has ev ''price'')
                          \<or> (body_has ev ''name'' \<and>
                                (body_has ev ''cost'' \<or> body_has ev ''price''))))))))"

section \<open>An in-memory ERP for concrete runs\<close>

text \<open>
  A small ERP that keeps products and tags as lists of records. It answers every call
  without an exception. It keeps its records in the order of their names and returns
  them in that order. It serves to run the handlers on concrete requests.
\<close>

record store =
  st_products :: "(string \<times> json) list list"
  st_tags :: "(string \<times> json) list list"

definition table :: "store \<Rightarrow> string \<Rightarrow> (string \<times> json) list list" where
  "table s m = (if m = ''product.tag'' then st_tags s else st_products s)"

fun holds :: "(string \<times> json) list \<Rightarrow> clause \<Rightarrow> bool" where
  "holds r OrOp = False"
| "holds r (Cond f opr v) =
     (case map_of r f of
        None \<Rightarrow> False
      | Some x \<Rightarrow>
          if opr = ''='' then x = v
          else if opr = ''ilike'' then
            (case x of
               JStr t \<Rightarrow> (case v of JStr q \<Rightarrow> is_substring (lower q) (lower t) | _ \<Rightarrow> False)
             | _ \<Rightarrow> False)
          else if opr = ''in'' then (case v of JArr xs \<Rightarrow> x \<in> set xs | _ \<Rightarrow> False)
          else False)"

fun matches :: "(string \<times> json) list \<Rightarrow> clause list \<Rightarrow> bool" where
  "matches r [] = True"
| "matches r (OrOp # a # b # cs) = ((holds r a \<or> holds r b) \<and> matches r cs)"
| "matches r (c # cs) = (holds r c \<and> matches r cs)"

definition rec_id :: "(string \<times> json) list \<Rightarrow> int" where
  "rec_id r = (case map_of r ''id'' of Some (JInt i) \<Rightarrow> i | _ \<Rightarrow> 0)"

definition page :: "search_kw option \<Rightarrow> 'a list \<Rightarrow> 'a list" where
  "page kw xs =
     (case kw of None \<Rightarrow> xs
      | Some k \<Rightarrow> take (nat (kw_limit k)) (drop (nat (kw_offset k)) xs))"

definition store_search :: "store \<Rightarrow> string \<Rightarrow> clause list \<Rightarrow> int list" where
  "store_search s m cs = map rec_id (filter (\<lambda>r. matches r cs) (table s m))"

definition project :: "string list \<Rightarrow> (string \<times> json) list \<Rightarrow> (string \<times> json) list" where
  "project fs r = filter (\<lambda>kv. fst kv = ''id'' \<or> fst kv \<in> set fs) r"

definition store_read :: "store \<Rightarrow> string \<Rightarrow> json \<Rightarrow> string list \<Rightarrow> (string \<times> json) list list" where
  "store_read s m ids fs =
     (case ids of
        JArr xs \<Rightarrow>
          concat (map (\<lambda>i. map (project fs) (filter (\<lambda>r. JInt (rec_id r) = i) (table s m))) xs)
      | _ \<Rightarrow> [])"

text \<open>The replace command \<^verbatim>\<open>[(6, 0, ids)]\<close> of a many-to-many field stores \<open>ids\<close>.\<close>

definition stored_value :: "json \<Rightarrow> json" where
  "stored_value v =
     (case v of
        JArr [JArr [JInt c, JInt z, ids]] \<Rightarrow> (if c = 6 \<and> z = 0 then ids else v)
      | _ \<Rightarrow> v)"

definition next_id :: "(string \<times> json) list list \<Rightarrow> int" where
  "next_id rs = 1 + fold max (map rec_id rs) 0"

definition new_record :: "int \<Rightarrow> (string \<times> json) list \<Rightarrow> (string \<times> json) list" where
  "new_record i vals =
     (''id'', JInt i) # map (\<lambda>kv. (fst kv, stored_value (snd kv))) vals
     @ (if map_of vals ''standard_price'' = None \<and> map_of vals ''list_price'' \<noteq> None
        then [(''standard_price'', JFloat (Fin 0))] else [])"

definition store_create :: "store \<Rightarrow> string \<Rightarrow> (string \<times> json) list \<Rightarrow> int \<times> store" where
  "store_create s m vals =
     (let i = next_id (table s m) in
      (i, if m = ''product.tag'' then s\<lparr> st_tags := st_tags s @ [new_record i vals] \<rparr>
          else s\<lparr> st_products := st_products s @ [new_record i vals] \<rparr>))"

definition overwrite :: "(string \<times> json) list \<Rightarrow> (string \<times> json) list \<Rightarrow> (string \<times> json) list" where
  "overwrite vals r = map (\<lambda>kv. case map_of vals (fst kv) of None \<Rightarrow> kv | Some v \<Rightarrow> (fst kv, v)) r"

definition store_write :: "store \<Rightarrow> string \<Rightarrow> json \<Rightarrow> (string \<times> json) list \<Rightarrow> store" where
  "store_write s m ids vals =
     (let upd = map (\<lambda>r. if (case ids of JArr xs \<Rightarrow> JInt (rec_id r) \<in> set xs | _ \<Rightarrow> False)
                          then overwrite vals r else r)
      in if m = ''product.tag'' then s\<lparr> st_tags := upd (st_tags s) \<rparr>
         else s\<lparr> st_products := upd (st_products s) \<rparr>)"

definition store_erp :: "store erp" where
  "store_erp =
     \<lparr> erp_authenticate = (\<lambda>ctx url db user pw s. (Inr (JInt 2), s)),
       erp_search = (\<lambda>uid m cs kw s. (Inr (page kw (store_search s m cs)), s)),
       erp_search_count = (\<lambda>uid m cs s. (Inr (int (length (store_search s m cs))), s)),
       erp_read = (\<lambda>uid m ids fs s. (Inr (store_read s m ids fs), s)),
       erp_create = (\<lambda>uid m vals s. (case store_create s m vals of (i, s') \<Rightarrow> (Inr i, s'))),
       erp_write = (\<lambda>uid m ids vals s. (Inr True, store_write s m ids vals)) \<rparr>"

definition product_record ::
  "int \<Rightarrow> string \<Rightarrow> rat \<Rightarrow> rat \<Rightarrow> int list \<Rightarrow> (string \<times> json) list" where
  "product_record i n price cost tags =
     [(''id'', JInt i), (''name'', JStr n), (''type'', JStr ''product''),
      (''default_code'', JBool False),
      (''list_price'', JFloat (Fin price)), (''standard_price'', JFloat (Fin cost)),
      (''currency_id'', JArr [JInt 1, JStr ''USD'']),
      (''product_tag_ids'', JArr (map JInt tags))]"

definition tag_record :: "int \<Rightarrow> string \<Rightarrow> int \<Rightarrow> (string \<times> json) list" where
  "tag_record i n c = [(''id'', JInt i), (''name'', JStr n), (''color'', JInt c)]"

definition sample_store :: store where
  "sample_store =
     \<lparr> st_products =
         [product_record 10 ''Chana Dal'' 120 90 [1, 2],
          product_record 11 ''Chana Whole'' 80 60 [1],
          product_record 13 ''Gadget'' 25 20 [],
          product_record 14 ''Gadget'' 30 20 [2],
          product_record 12 ''Widget'' 10 5 []],
       st_tags = [tag_record 2 ''Organic'' 3, tag_record 1 ''Premium'' 5] \<rparr>"

text \<open>
  A runtime for the concrete runs: it converts the strings that \<^verbatim>\<open>int\<close> accepts and no
  others, which is what Python does on every string used below.
\<close>

definition sample_builtins :: builtins where
  "sample_builtins =
     \<lparr> float_of_str = (\<lambda>s. map_option (\<lambda>i. Fin (of_int i)) (int_of_str s)),
       float_of_int = (\<lambda>i. Some (Fin (of_int i))),
       format_value = (\<lambda>v. case v of JInt i \<Rightarrow> str_of_int i | _ \<Rightarrow> []) \<rparr>"

text \<open>An environment with a shared secret and no \<^verbatim>\<open>VERIFY_SSL\<close>, and one without secret.\<close>

definition secret_env :: "string \<Rightarrow> string option" where
  "secret_env k =
     map_of [(''ODOO_URL'', ''erp.example.com''), (''ODOO_DB'', ''prod''),
             (''ODOO_USERNAME'', ''api''), (''ODOO_PASSWORD'', ''pw''),
             (''CLIENT_ID'', ''app''), (''CLIENT_SECRET'', ''s3cret'')] k"

definition open_env :: "string \<Rightarrow> string option" where
  "open_env k =
     map_of [(''ODOO_URL'', ''erp.example.com''), (''ODOO_DB'', ''prod''),
             (''ODOO_USERNAME'', ''api''), (''ODOO_PASSWORD'', ''pw'')] k"

definition request :: "string \<Rightarrow> string \<Rightarrow> (string \<times> string) list \<Rightarrow> body \<Rightarrow> event" where
  "request m path q b =
     \<lparr> ev_method = Some m, ev_rawPath = Some path, ev_headers = [], ev_query = q, ev_body = b \<rparr>"


section \<open>Properties of every result of a run\<close>

text \<open>\<open>returns m Q\<close>: every value that the computation \<open>m\<close> returns satisfies \<open>Q\<close>.\<close>

definition returns :: "('a, 's) rpc \<Rightarrow> ('a \<Rightarrow> bool) \<Rightarrow> bool" where
  "returns m Q = (\<forall>w r w'. m w = (Inr r, w') \<longrightarrow> Q r)"

section \<open>The shared-secret check\<close>

lemma auth_unauthorized:
  assumes "env_truthy (CLIENT_ID cfg)" "env_truthy (CLIENT_SECRET cfg)" "\<not> credentials_ok cfg ev"
  shows "authenticate_request cfg E ev w = (Inl (error_response 401 ''Unauthorized''), w)"
  using assms by (simp add: authenticate_request_def)

lemma handlers_unauthorized:
  assumes "env_truthy (CLIENT_ID cfg)" "env_truthy (CLIENT_SECRET cfg)" "\<not> credentials_ok cfg ev"
  shows "handle_list_inventory B cfg E ev w = (Inr (error_response 401 ''Unauthorized''), w)"
    and "handle_list_tags cfg E ev w = (Inr (error_response 401 ''Unauthorized''), w)"
    and "handle_create_tag cfg E ev w = (Inr (error_response 401 ''Unauthorized''), w)"
    and "handle_create_product B cfg E ev w = (Inr (error_response 401 ''Unauthorized''), w)"
    and "handle_update_product B cfg E ev w = (Inr (error_response 401 ''Unauthorized''), w)"
  by (simp_all add: auth_unauthorized[OF assms] handle_list_inventory_def handle_list_tags_def
      handle_create_tag_def handle_create_product_def handle_update_product_def)

lemma py_in_raise_any: "py_in k d = Inl e \<Longrightarrow> py_in k' d = Inl e"
  by (cases d) auto

text \<open>
  C1, as stated, fails: with the shared secret configured and no credential header at
  all, the router answers an \<^verbatim>\<open>OPTIONS\<close> request with 204 and a request for an unknown
  path with 404; neither reaches the header check.
\<close>

theorem unauthorized_every_path_counterexample:
  "env_truthy (CLIENT_ID (load_config secret_env))
   \<and> env_truthy (CLIENT_SECRET (load_config secret_env))
   \<and> \<not> credentials_ok (load_config secret_env) (request ''OPTIONS'' ''/'' [] Absent)
   \<and> \<not> credentials_ok (load_config secret_env) (request ''GET'' ''/nowhere'' [] Absent)
   \<and> statusCode (fst (lambda_handler sample_builtins (load_config secret_env) store_erp
                        (request ''OPTIONS'' ''/'' [] Absent) (sample_store, []))) = 204
   \<and> statusCode (fst (lambda_handler sample_builtins (load_config secret_env) store_erp
                        (request ''GET'' ''/nowhere'' [] Absent) (sample_store, []))) = 404"
  by code_simp

text \<open>
  C1, amended: with the shared secret configured, a request whose credential headers
  do not both equal the configured values gets 401, and no call reaches the ERP,
  whenever the router hands the request to a handler (\<open>dispatches\<close>). Every other such
  request is answered by the router itself, also without any call to the ERP, with
  204, 400, 404, 405 or 500.
\<close>

theorem unauthorized_when_dispatched:
  assumes "env_truthy (CLIENT_ID cfg)" "env_truthy (CLIENT_SECRET cfg)" "\<not> credentials_ok cfg ev"
  shows "(dispatches ev \<longrightarrow>
            lambda_handler B cfg E ev w = (error_response 401 ''Unauthorized'', w))
       \<and> (\<not> dispatches ev \<longrightarrow>
            snd (lambda_handler B cfg E ev w) = w
            \<and> statusCode (fst (lambda_handler B cfg E ev w)) \<in> {204, 400, 404, 405, 500})"
proof (cases "ev_method ev")
  case None
  then show ?thesis
    by (simp add: lambda_handler_def dispatches_def error_response_def)
next
  case (Some m)
  note h = handlers_unauthorized[OF assms]
  show ?thesis
  proof (cases "path_parts ev")
    case Nil
    with Some show ?thesis
      by (auto simp: lambda_handler_def dispatches_def error_response_def cors_response_def
          route_def h done_rpc_def)
  next
    case (Cons part rest)
    show ?thesis
    proof (cases "ev_body ev")
      case Absent
      with Some Cons show ?thesis
        by (auto simp: lambda_handler_def dispatches_def error_response_def cors_response_def
            route_def h done_rpc_def route_tags_post_def route_products_post_def body_has_def)
    next
      case Malformed
      with Some Cons show ?thesis
        by (auto simp: lambda_handler_def dispatches_def error_response_def cors_response_def
            route_def h done_rpc_def route_tags_post_def route_products_post_def body_has_def)
    next
      case (Parsed d)
      have a: "py_in k d = Inl e \<Longrightarrow> py_in k' d \<noteq> Inr True" for k k' e
        using py_in_raise_any[of k d e k'] by simp
      from Some Cons Parsed show ?thesis
        by (auto simp: lambda_handler_def dispatches_def error_response_def cors_response_def
            route_def h done_rpc_def route_tags_post_def route_products_post_def body_has_def
            dest: a split: sum.splits)
    qed
  qed
qed

theorem unauthorized_when_dispatched_witness:
  "env_truthy (CLIENT_ID (load_config secret_env))
   \<and> env_truthy (CLIENT_SECRET (load_config secret_env))
   \<and> \<not> credentials_ok (load_config secret_env)
         (request ''POST'' ''/tags'' [] (Parsed (JObj [(''name'', JStr ''Fresh'')])))
   \<and> dispatches (request ''POST'' ''/tags'' [] (Parsed (JObj [(''name'', JStr ''Fresh'')])))
   \<and> lambda_handler sample_builtins (load_config secret_env) store_erp
        (request ''POST'' ''/tags'' [] (Parsed (JObj [(''name'', JStr ''Fresh'')])))
        (sample_store, [])
      = (error_response 401 ''Unauthorized'', (sample_store, []))
   \<and> \<not> credentials_ok (load_config secret_env) (request ''DELETE'' ''/tags'' [] Absent)
   \<and> \<not> dispatches (request ''DELETE'' ''/tags'' [] Absent)
   \<and> snd (lambda_handler sample_builtins (load_config secret_env) store_erp
        (request ''DELETE'' ''/tags'' [] Absent) (sample_store, [])) = (sample_store, [])
   \<and> statusCode (fst (lambda_handler sample_builtins (load_config secret_env) store_erp
        (request ''DELETE'' ''/tags'' [] Absent) (sample_store, [])))
        \<in> {204, 400, 404, 405, 500}"
proof -
  have id: "env_truthy (CLIENT_ID (load_config secret_env))"
    and sec: "env_truthy (CLIENT_SECRET (load_config secret_env))"
    by code_simp+
  have bad1: "\<not> credentials_ok (load_config secret_env)
         (request ''POST'' ''/tags'' [] (Parsed (JObj [(''name'', JStr ''Fresh'')])))"
    and d1: "dispatches (request ''POST'' ''/tags'' [] (Parsed (JObj [(''name'', JStr ''Fresh'')])))"
    and bad2: "\<not> credentials_ok (load_config secret_env) (request ''DELETE'' ''/tags'' [] Absent)"
    and d2: "\<not> dispatches (request ''DELETE'' ''/tags'' [] Absent)"
    by code_simp+
  show ?thesis
    using unauthorized_when_dispatched[OF id sec bad1, of sample_builtins store_erp "(sample_store, [])"]
      unauthorized_when_dispatched[OF id sec bad2, of sample_builtins store_erp "(sample_store, [])"]
      id sec bad1 bad2 d1 d2
    by blast
qed

section \<open>The TLS policy\<close>

text \<open>
  C2, as stated, fails: with no \<^verbatim>\<open>VERIFY_SSL\<close> in the environment the authentication
  call goes over a context that checks neither the certificate nor the host name.
\<close>

theorem verify_ssl_default_counterexample:
  "open_env ''VERIFY_SSL'' = None
   \<and> calls (snd (authenticate_request (load_config open_env) store_erp
                   (request ''GET'' ''/'' [] Absent) (sample_store, [])))
     = [Authenticate \<lparr> check_hostname = False, verify_mode = CERT_NONE \<rparr>]"
  by code_simp

text \<open>
  C2, amended: when \<^verbatim>\<open>VERIFY_SSL\<close> is absent from the environment, the ERP
  authentication channel is opened with certificate verification disabled; verification
  is on exactly when the variable is set to a value that reads \<^verbatim>\<open>true\<close> in lower case.
\<close>

theorem verify_ssl_default_off:
  "VERIFY_SSL (load_config env)
     = (case env ''VERIFY_SSL'' of None \<Rightarrow> False | Some v \<Rightarrow> lower v = ''true'')
   \<and> (env ''VERIFY_SSL'' = None \<longrightarrow>
        make_ssl_context (load_config env) = \<lparr> check_hostname = False, verify_mode = CERT_NONE \<rparr>
        \<and> (fst (authenticate_request (load_config env) E ev w)
              = Inl (error_response 401 ''Unauthorized'')
            \<or> calls (snd (authenticate_request (load_config env) E ev w))
              = calls w @ [Authenticate \<lparr> check_hostname = False, verify_mode = CERT_NONE \<rparr>]))"
proof -
  have default: "lower ''false'' \<noteq> ''true''"
    by code_simp
  have flag: "VERIFY_SSL (load_config env)
     = (case env ''VERIFY_SSL'' of None \<Rightarrow> False | Some v \<Rightarrow> lower v = ''true'')"
    using default by (simp add: load_config_def split: option.splits)
  have ctx: "make_ssl_context (load_config env)
       = \<lparr> check_hostname = False, verify_mode = CERT_NONE \<rparr>"
    if "env ''VERIFY_SSL'' = None"
    using that flag by (simp add: make_ssl_context_def)
  have run: "fst (authenticate_request (load_config env) E ev w)
              = Inl (error_response 401 ''Unauthorized'')
            \<or> calls (snd (authenticate_request (load_config env) E ev w))
              = calls w @ [Authenticate (make_ssl_context (load_config env))]"
    by (simp add: authenticate_request_def calls_def call_authenticate_def issue_def
        split: prod.splits sum.splits)
  show ?thesis
    using flag ctx run by auto
qed

theorem verify_ssl_default_off_witness:
  "open_env ''VERIFY_SSL'' = None
   \<and> make_ssl_context (load_config open_env)
       = \<lparr> check_hostname = False, verify_mode = CERT_NONE \<rparr>
   \<and> calls (snd (authenticate_request (load_config open_env) store_erp
                   (request ''GET'' ''/'' [] Absent) (sample_store, [])))
       = [Authenticate \<lparr> check_hostname = False, verify_mode = CERT_NONE \<rparr>]"
proof -
  have absent: "open_env ''VERIFY_SSL'' = None"
    by code_simp
  have ok: "fst (authenticate_request (load_config open_env) store_erp
                   (request ''GET'' ''/'' [] Absent) (sample_store, []))
            \<noteq> Inl (error_response 401 ''Unauthorized'')"
    by code_simp
  show ?thesis
    using verify_ssl_default_off[of open_env store_erp "request ''GET'' ''/'' [] Absent"
        "(sample_store, [])"] absent ok
    by (simp add: calls_def)
qed


section \<open>Open mode\<close>

lemma returns_done: "(\<And>x. r = Inr x \<Longrightarrow> Q x) \<Longrightarrow> returns (done_rpc r) Q"
  by (auto simp: returns_def done_rpc_def)

lemma returns_bind: "(\<And>a. returns (f a) Q) \<Longrightarrow> returns (bind_rpc m f) Q"
  by (auto simp: returns_def bind_rpc_def split: prod.splits sum.splits)

lemma returns_if: "returns a Q \<Longrightarrow> returns b Q \<Longrightarrow> returns (if c then a else b) Q"
  by simp

lemma returns_weaken: "returns m P \<Longrightarrow> (\<And>r. P r \<Longrightarrow> Q r) \<Longrightarrow> returns m Q"
  by (auto simp: returns_def)

lemma returnsD: "returns m Q \<Longrightarrow> m w = (Inr r, w') \<Longrightarrow> Q r"
  unfolding returns_def by blast

lemmas returns_intros = returns_bind returns_if returns_done

lemma inventory_query_status: "returns (inventory_query B E uid p mth) (\<lambda>r. statusCode r = 200)"
  unfolding inventory_query_def
  by (intro returns_intros) (simp_all add: empty_inventory_response_def inventory_response_def json_response_def)

lemma tags_query_status: "returns (tags_query E uid p mth) (\<lambda>r. statusCode r = 200)"
  unfolding tags_query_def
  by (intro returns_intros) (simp_all add: empty_tags_response_def tags_response_def json_response_def)

lemma create_tag_query_status: "returns (create_tag_query E uid t) (\<lambda>r. statusCode r \<in> {201, 409})"
  unfolding create_tag_query_def
  by (intro returns_intros) (auto simp: error_response_def json_response_def)

lemma create_product_query_status: "returns (create_product_query E uid p) (\<lambda>r. statusCode r \<in> {201, 409})"
  unfolding create_product_query_def
  by (intro returns_intros) (auto simp: error_response_def json_response_def)

lemma apply_update_status: "returns (apply_update E uid u i) (\<lambda>r. statusCode r = 200)"
  unfolding apply_update_def
  by (intro returns_intros) (auto simp: error_response_def json_response_def)

lemma update_product_query_status: "returns (update_product_query E uid u) (\<lambda>r. statusCode r \<in> {200, 400, 404})"
  unfolding update_product_query_def
  by (intro returns_intros returns_weaken[OF apply_update_status])
     (auto simp: not_found_response_def ambiguous_response_def)

lemma step_of_Return [simp]: "step_of x \<noteq> Return r"
  by (simp add: step_of_def split: sum.splits)

lemma inventory_params_status: "inventory_params ev = Return r \<Longrightarrow> statusCode r = 400"
  by (auto simp: inventory_params_def error_response_def split: if_splits body.splits)

lemma tags_params_status: "tags_params ev = Return r \<Longrightarrow> statusCode r = 400"
  by (auto simp: tags_params_def error_response_def split: if_splits body.splits)

lemma create_tag_params_status: "create_tag_params ev = Return r \<Longrightarrow> statusCode r = 400"
  by (auto simp: create_tag_params_def error_response_def split: if_splits body.splits sum.splits bool.splits)

lemma read_price_status: "read_price B v a b = Return r \<Longrightarrow> statusCode r = 400"
  by (auto simp: read_price_def error_response_def split: if_splits sum.splits pyexc.splits)

lemma update_product_params_status: "update_product_params B ev = Return r \<Longrightarrow> statusCode r = 400"
  by (auto simp: update_product_params_def error_response_def dest: read_price_status
      split: if_splits body.splits sum.splits bool.splits step.splits)

lemma check_tag_ids_status: "check_tag_ids E uid t w = (Return r, w') \<Longrightarrow> statusCode r = 400"
  by (auto simp: check_tag_ids_def error_response_def split: if_splits prod.splits sum.splits)

lemma create_product_params_status:
  "create_product_params B E uid ev w = (Return r, w') \<Longrightarrow> statusCode r = 400"
  by (auto simp: create_product_params_def error_response_def
      dest: read_price_status check_tag_ids_status
      split: if_splits body.splits sum.splits bool.splits step.splits prod.splits)


lemma auth_error_status:
  assumes "\<not> (env_truthy (CLIENT_ID cfg) \<and> env_truthy (CLIENT_SECRET cfg))"
    and "authenticate_request cfg E ev w = (Inl r, w')"
  shows "statusCode r = 500"
  using assms
  by (auto simp: authenticate_request_def error_response_def split: prod.splits sum.splits if_splits)

lemma open_statuses:
  assumes op: "\<not> (env_truthy (CLIENT_ID cfg) \<and> env_truthy (CLIENT_SECRET cfg))"
  shows "returns (handle_list_inventory B cfg E ev) (\<lambda>r. statusCode r \<noteq> 401)"
    and "returns (handle_list_tags cfg E ev) (\<lambda>r. statusCode r \<noteq> 401)"
    and "returns (handle_create_tag cfg E ev) (\<lambda>r. statusCode r \<noteq> 401)"
    and "returns (handle_create_product B cfg E ev) (\<lambda>r. statusCode r \<noteq> 401)"
    and "returns (handle_update_product B cfg E ev) (\<lambda>r. statusCode r \<noteq> 401)"
proof -
  note a = auth_error_status[OF op]
  show "returns (handle_list_inventory B cfg E ev) (\<lambda>r. statusCode r \<noteq> 401)"
    by (auto simp: returns_def handle_list_inventory_def error_response_def
        dest!: a inventory_params_status returnsD[OF inventory_query_status]
        split: prod.splits sum.splits step.splits pyexc.splits)
  show "returns (handle_list_tags cfg E ev) (\<lambda>r. statusCode r \<noteq> 401)"
    by (auto simp: returns_def handle_list_tags_def error_response_def
        dest!: a tags_params_status returnsD[OF tags_query_status]
        split: prod.splits sum.splits step.splits)
  show "returns (handle_create_tag cfg E ev) (\<lambda>r. statusCode r \<noteq> 401)"
    by (auto simp: returns_def handle_create_tag_def error_response_def
        dest!: a create_tag_params_status returnsD[OF create_tag_query_status]
        split: prod.splits sum.splits step.splits)
  show "returns (handle_create_product B cfg E ev) (\<lambda>r. statusCode r \<noteq> 401)"
    by (auto simp: returns_def handle_create_product_def error_response_def
        dest!: a create_product_params_status returnsD[OF create_product_query_status]
        split: prod.splits sum.splits step.splits)
  show "returns (handle_update_product B cfg E ev) (\<lambda>r. statusCode r \<noteq> 401)"
    by (auto simp: returns_def handle_update_product_def error_response_def
        dest!: a update_product_params_status returnsD[OF update_product_query_status]
        split: prod.splits sum.splits step.splits)
qed

lemma returns_done_iff: "returns (done_rpc r) Q = (\<forall>x. r = Inr x \<longrightarrow> Q x)"
  by (auto simp: returns_def done_rpc_def)

lemma returns_error: "statusCode (error_response c msg) = c"
  by (simp add: error_response_def)

lemma route_tags_post_open_status:
  assumes op: "\<not> (env_truthy (CLIENT_ID cfg) \<and> env_truthy (CLIENT_SECRET cfg))"
  shows "returns (route_tags_post cfg E ev) (\<lambda>r. statusCode r \<noteq> 401)"
proof (cases "ev_body ev")
  case (Parsed d)
  show ?thesis
  proof (cases "py_in ''tag_name'' d")
    case (Inl e)
    with Parsed show ?thesis
      by (simp add: route_tags_post_def returns_done_iff)
  next
    case (Inr b)
    with Parsed show ?thesis
      by (simp add: route_tags_post_def returns_done_iff returns_error open_statuses[OF op])
  qed
qed (simp_all add: route_tags_post_def returns_done_iff returns_error)

lemma route_products_post_open_status:
  assumes op: "\<not> (env_truthy (CLIENT_ID cfg) \<and> env_truthy (CLIENT_SECRET cfg))"
  shows "returns (route_products_post B cfg E ev) (\<lambda>r. statusCode r \<noteq> 401)"
proof (cases "ev_body ev")
  case (Parsed d)
  show ?thesis
  proof (cases "py_in ''product_name'' d")
    case (Inl e)
    with Parsed show ?thesis
      by (simp add: route_products_post_def returns_done_iff)
  next
    case (Inr b)
    with Parsed show ?thesis
      by (simp add: route_products_post_def returns_done_iff returns_error open_statuses[OF op])
  qed
qed (simp_all add: route_products_post_def returns_done_iff returns_error)

lemma route_open_status:
  assumes op: "\<not> (env_truthy (CLIENT_ID cfg) \<and> env_truthy (CLIENT_SECRET cfg))"
  shows "returns (route B cfg E ev m) (\<lambda>r. statusCode r \<noteq> 401)"
proof (cases "path_parts ev")
  case Nil
  then show ?thesis
    by (simp add: route_def returns_done_iff returns_error open_statuses[OF op])
next
  case (Cons part rest)
  then show ?thesis
    by (simp add: route_def returns_done_iff returns_error open_statuses[OF op]
        route_tags_post_open_status[OF op] route_products_post_open_status[OF op])
qed

lemma auth_open_eq:
  assumes op: "\<not> (env_truthy (CLIENT_ID cfg) \<and> env_truthy (CLIENT_SECRET cfg))"
  shows "authenticate_request cfg E ev w
       = authenticate_request (cfg\<lparr> CLIENT_ID := None, CLIENT_SECRET := None \<rparr>) E ev w"
  using op by (auto simp: authenticate_request_def call_authenticate_def make_ssl_context_def)


text \<open>
  C9: the header check runs only when both the client id and the client secret are
  configured. When either is missing, no request gets 401, the router behaves as it
  does with neither configured, and \<open>authenticate_request\<close> goes straight to the
  authentication call of the ERP.
\<close>

theorem open_mode_when_either_missing:
  assumes op: "\<not> (env_truthy (CLIENT_ID cfg) \<and> env_truthy (CLIENT_SECRET cfg))"
  shows "statusCode (fst (lambda_handler B cfg E ev w)) \<noteq> 401
       \<and> lambda_handler B cfg E ev w
           = lambda_handler B (cfg\<lparr> CLIENT_ID := None, CLIENT_SECRET := None \<rparr>) E ev w
       \<and> authenticate_request cfg E ev w
           = authenticate_request (cfg\<lparr> CLIENT_ID := None, CLIENT_SECRET := None \<rparr>) E ev w
       \<and> calls (snd (authenticate_request cfg E ev w))
           = calls w @ [Authenticate (make_ssl_context cfg)]"
proof -
  let ?cfg = "cfg\<lparr> CLIENT_ID := None, CLIENT_SECRET := None \<rparr>"
  have a: "authenticate_request cfg E ev v = authenticate_request ?cfg E ev v" for v
    by (rule auth_open_eq[OF op])
  have h: "handle_list_inventory B cfg E ev = handle_list_inventory B ?cfg E ev"
    "handle_list_tags cfg E ev = handle_list_tags ?cfg E ev"
    "handle_create_tag cfg E ev = handle_create_tag ?cfg E ev"
    "handle_create_product B cfg E ev = handle_create_product B ?cfg E ev"
    "handle_update_product B cfg E ev = handle_update_product B ?cfg E ev"
    by (rule ext, simp add: a handle_list_inventory_def handle_list_tags_def handle_create_tag_def
        handle_create_product_def handle_update_product_def)+
  have r: "route B cfg E ev m = route B ?cfg E ev m" for m
    unfolding route_def route_tags_post_def route_products_post_def h ..
  have same: "lambda_handler B cfg E ev w = lambda_handler B ?cfg E ev w"
    unfolding lambda_handler_def r ..
  have status: "statusCode (fst (lambda_handler B cfg E ev w)) \<noteq> 401"
    by (auto simp: lambda_handler_def cors_response_def error_response_def
        dest!: returnsD[OF route_open_status[OF op]]
        split: option.splits prod.splits sum.splits)
  have issued: "calls (snd (authenticate_request cfg E ev w))
           = calls w @ [Authenticate (make_ssl_context cfg)]"
    using op
    by (auto simp: authenticate_request_def calls_def call_authenticate_def issue_def
        split: prod.splits sum.splits)
  show ?thesis
    using status same a issued by blast
qed

theorem open_mode_when_either_missing_witness:
  "\<not> (env_truthy (CLIENT_ID ((load_config secret_env)\<lparr> CLIENT_SECRET := None \<rparr>))
        \<and> env_truthy (CLIENT_SECRET ((load_config secret_env)\<lparr> CLIENT_SECRET := None \<rparr>)))
   \<and> env_truthy (CLIENT_ID ((load_config secret_env)\<lparr> CLIENT_SECRET := None \<rparr>))
   \<and> statusCode (fst (lambda_handler sample_builtins
          ((load_config secret_env)\<lparr> CLIENT_SECRET := None \<rparr>) store_erp
          (request ''GET'' ''/tags'' [] Absent) (sample_store, []))) \<noteq> 401
   \<and> calls (snd (authenticate_request ((load_config secret_env)\<lparr> CLIENT_SECRET := None \<rparr>)
          store_erp (request ''GET'' ''/tags'' [] Absent) (sample_store, [])))
       = [Authenticate (make_ssl_context ((load_config secret_env)\<lparr> CLIENT_SECRET := None \<rparr>))]"
proof -
  have nosecret: "\<not> (env_truthy (CLIENT_ID ((load_config secret_env)\<lparr> CLIENT_SECRET := None \<rparr>))
        \<and> env_truthy (CLIENT_SECRET ((load_config secret_env)\<lparr> CLIENT_SECRET := None \<rparr>)))"
    by simp
  have hasid: "env_truthy (CLIENT_ID ((load_config secret_env)\<lparr> CLIENT_SECRET := None \<rparr>))"
    by code_simp
  note t = open_mode_when_either_missing[OF nosecret, of sample_builtins store_erp
        "request ''GET'' ''/tags'' [] Absent" "(sample_store, [])"]
  have start: "calls (sample_store, []) = ([] :: rpc_call list)"
    by (simp add: calls_def)
  from t[THEN conjunct1] have s: "statusCode (fst (lambda_handler sample_builtins
          ((load_config secret_env)\<lparr> CLIENT_SECRET := None \<rparr>) store_erp
          (request ''GET'' ''/tags'' [] Absent) (sample_store, []))) \<noteq> 401"
    .
  from t[THEN conjunct2, THEN conjunct2, THEN conjunct2, unfolded start append_Nil] have c: "calls (snd (authenticate_request ((load_config secret_env)\<lparr> CLIENT_SECRET := None \<rparr>)
          store_erp (request ''GET'' ''/tags'' [] Absent) (sample_store, [])))
       = [Authenticate (make_ssl_context ((load_config secret_env)\<lparr> CLIENT_SECRET := None \<rparr>))]"
    .
  show ?thesis
    using nosecret hasid s c by blast
qed

section \<open>Empty pages\<close>

lemmas rpc_defs = bind_rpc_def done_rpc_def issue_def call_search_def call_search_count_def
  call_read_def call_create_def call_write_def call_authenticate_def

lemma auth_ok_calls:
  "authenticate_request cfg E ev w = (Inr uid, w1) \<Longrightarrow>
     calls w1 = calls w @ [Authenticate (make_ssl_context cfg)]"
  by (auto simp: authenticate_request_def calls_def rpc_defs split: if_splits prod.splits sum.splits)

lemma inventory_empty_run:
  assumes dom: "inventory_domain p = Inr cs"
    and search: "erp_search E uid ''product.product'' cs
        (Some \<lparr> kw_limit = p_limit p, kw_offset = p_offset p, kw_order = ''name'' \<rparr>) (fst w1)
        = (Inr [], s2)"
  shows "inventory_query B E uid p mth w1
       = (Inr (empty_inventory_response B p),
          (s2, snd w1 @ [Search ''product.product'' cs
             (Some \<lparr> kw_limit = p_limit p, kw_offset = p_offset p, kw_order = ''name'' \<rparr>)]))"
  using assms by (simp add: inventory_query_def rpc_defs)

lemma tags_empty_run:
  assumes search: "erp_search E uid ''product.tag'' (tags_domain t)
        (Some \<lparr> kw_limit = t_limit t, kw_offset = t_offset t, kw_order = ''name'' \<rparr>) (fst w1)
        = (Inr [], s2)"
  shows "tags_query E uid t mth w1
       = (Inr (empty_tags_response t),
          (s2, snd w1 @ [Search ''product.tag'' (tags_domain t)
             (Some \<lparr> kw_limit = t_limit t, kw_offset = t_offset t, kw_order = ''name'' \<rparr>)]))"
  using assms by (simp add: tags_query_def rpc_defs)

text \<open>
  C10: a list-inventory or list-tags request whose id search returns no ids is
  answered with 200; the body carries \<^verbatim>\<open>total_count\<close> 0, \<^verbatim>\<open>limit\<close> and \<^verbatim>\<open>offset\<close> at the top
  level and no \<^verbatim>\<open>pagination\<close> object; the only calls issued are the authentication and
  the search, so neither the count nor the read is issued.
\<close>

theorem empty_page_is_200_without_count_or_read:
  assumes auth: "authenticate_request cfg E ev w = (Inr uid, w1)"
  shows "(inventory_params ev = Next p \<and> inventory_domain p = Inr cs
          \<and> erp_search E uid ''product.product'' cs
               (Some \<lparr> kw_limit = p_limit p, kw_offset = p_offset p, kw_order = ''name'' \<rparr>)
               (fst w1) = (Inr [], s2)
          \<longrightarrow> (\<exists>r w'. handle_list_inventory B cfg E ev w = (Inr r, w')
                \<and> statusCode r = 200
                \<and> body_field r ''total_count'' = Some (JInt 0)
                \<and> body_field r ''limit'' = Some (JInt (p_limit p))
                \<and> body_field r ''offset'' = Some (JInt (p_offset p))
                \<and> body_field r ''data'' = Some (JArr [])
                \<and> body_field r ''pagination'' = None
                \<and> calls w' = calls w @ [Authenticate (make_ssl_context cfg),
                     Search ''product.product'' cs
                       (Some \<lparr> kw_limit = p_limit p, kw_offset = p_offset p,
                               kw_order = ''name'' \<rparr>)]))
       \<and> (tags_params ev = Next t
          \<and> erp_search E uid ''product.tag'' (tags_domain t)
               (Some \<lparr> kw_limit = t_limit t, kw_offset = t_offset t, kw_order = ''name'' \<rparr>)
               (fst w1) = (Inr [], s3)
          \<longrightarrow> (\<exists>r w'. handle_list_tags cfg E ev w = (Inr r, w')
                \<and> statusCode r = 200
                \<and> body_field r ''total_count'' = Some (JInt 0)
                \<and> body_field r ''limit'' = Some (JInt (t_limit t))
                \<and> body_field r ''offset'' = Some (JInt (t_offset t))
                \<and> body_field r ''data'' = Some (JArr [])
                \<and> body_field r ''pagination'' = None
                \<and> calls w' = calls w @ [Authenticate (make_ssl_context cfg),
                     Search ''product.tag'' (tags_domain t)
                       (Some \<lparr> kw_limit = t_limit t, kw_offset = t_offset t,
                               kw_order = ''name'' \<rparr>)]))"
proof (intro conjI impI)
  assume h: "inventory_params ev = Next p \<and> inventory_domain p = Inr cs
          \<and> erp_search E uid ''product.product'' cs
               (Some \<lparr> kw_limit = p_limit p, kw_offset = p_offset p, kw_order = ''name'' \<rparr>)
               (fst w1) = (Inr [], s2)"
  have run: "handle_list_inventory B cfg E ev w
      = (Inr (empty_inventory_response B p),
          (s2, snd w1 @ [Search ''product.product'' cs
             (Some \<lparr> kw_limit = p_limit p, kw_offset = p_offset p, kw_order = ''name'' \<rparr>)]))"
    using h auth inventory_empty_run[of p cs E uid w1 s2 B "method_of ev"]
    by (simp add: handle_list_inventory_def)
  show "\<exists>r w'. handle_list_inventory B cfg E ev w = (Inr r, w')
                \<and> statusCode r = 200
                \<and> body_field r ''total_count'' = Some (JInt 0)
                \<and> body_field r ''limit'' = Some (JInt (p_limit p))
                \<and> body_field r ''offset'' = Some (JInt (p_offset p))
                \<and> body_field r ''data'' = Some (JArr [])
                \<and> body_field r ''pagination'' = None
                \<and> calls w' = calls w @ [Authenticate (make_ssl_context cfg),
                     Search ''product.product'' cs
                       (Some \<lparr> kw_limit = p_limit p, kw_offset = p_offset p,
                               kw_order = ''name'' \<rparr>)]"
    using auth_ok_calls[OF auth]
    by (simp add: run empty_inventory_response_def json_response_def body_field_def calls_def)
next
  assume h: "tags_params ev = Next t
          \<and> erp_search E uid ''product.tag'' (tags_domain t)
               (Some \<lparr> kw_limit = t_limit t, kw_offset = t_offset t, kw_order = ''name'' \<rparr>)
               (fst w1) = (Inr [], s3)"
  have run: "handle_list_tags cfg E ev w
      = (Inr (empty_tags_response t),
          (s3, snd w1 @ [Search ''product.tag'' (tags_domain t)
             (Some \<lparr> kw_limit = t_limit t, kw_offset = t_offset t, kw_order = ''name'' \<rparr>)]))"
    using h auth tags_empty_run[of E uid t w1 s3 "method_of ev"]
    by (simp add: handle_list_tags_def)
  show "\<exists>r w'. handle_list_tags cfg E ev w = (Inr r, w')
                \<and> statusCode r = 200
                \<and> body_field r ''total_count'' = Some (JInt 0)
                \<and> body_field r ''limit'' = Some (JInt (t_limit t))
                \<and> body_field r ''offset'' = Some (JInt (t_offset t))
                \<and> body_field r ''data'' = Some (JArr [])
                \<and> body_field r ''pagination'' = None
                \<and> calls w' = calls w @ [Authenticate (make_ssl_context cfg),
                     Search ''product.tag'' (tags_domain t)
                       (Some \<lparr> kw_limit = t_limit t, kw_offset = t_offset t,
                               kw_order = ''name'' \<rparr>)]"
    using auth_ok_calls[OF auth]
    by (simp add: run empty_tags_response_def json_response_def body_field_def calls_def)
qed


theorem empty_page_is_200_without_count_or_read_witness:
  "authenticate_request (load_config open_env) store_erp
     (request ''GET'' ''/'' [(''offset'', ''7'')] Absent) (sample_store, [])
     = (Inr (JInt 2),
        (sample_store, [Authenticate \<lparr> check_hostname = False, verify_mode = CERT_NONE \<rparr>]))
   \<and> inventory_params (request ''GET'' ''/'' [(''offset'', ''7'')] Absent)
       = Next \<lparr> p_search_term = JStr [], p_limit = 100, p_offset = 7,
                p_category_id = JStr [] \<rparr>
   \<and> tags_params (request ''GET'' ''/'' [(''offset'', ''7'')] Absent)
       = Next \<lparr> t_search_term = JStr [], t_limit = 100, t_offset = 7 \<rparr>
   \<and> (\<exists>r w'. handle_list_inventory sample_builtins (load_config open_env) store_erp
          (request ''GET'' ''/'' [(''offset'', ''7'')] Absent)
          (sample_store, []) = (Inr r, w')
        \<and> statusCode r = 200
        \<and> body_field r ''total_count'' = Some (JInt 0)
        \<and> body_field r ''limit'' = Some (JInt 100)
        \<and> body_field r ''offset'' = Some (JInt 7)
        \<and> body_field r ''pagination'' = None
        \<and> map method_name (calls w') = [''authenticate'', ''search''])
   \<and> (\<exists>r w'. handle_list_tags (load_config open_env) store_erp
          (request ''GET'' ''/'' [(''offset'', ''7'')] Absent)
          (sample_store, []) = (Inr r, w')
        \<and> statusCode r = 200
        \<and> body_field r ''total_count'' = Some (JInt 0)
        \<and> body_field r ''limit'' = Some (JInt 100)
        \<and> body_field r ''offset'' = Some (JInt 7)
        \<and> body_field r ''pagination'' = None
        \<and> map method_name (calls w') = [''authenticate'', ''search''])"
proof -
  let ?ev = "request ''GET'' ''/'' [(''offset'', ''7'')] Absent"
  let ?p = "\<lparr> p_search_term = JStr [], p_limit = 100, p_offset = 7, p_category_id = JStr [] \<rparr>"
  let ?t = "\<lparr> t_search_term = JStr [], t_limit = 100, t_offset = 7 \<rparr>"
  let ?cs = "[Cond ''type'' ''='' (JStr ''product'')]"
  let ?w1 = "(sample_store, [Authenticate \<lparr> check_hostname = False, verify_mode = CERT_NONE \<rparr>])"
  have auth: "authenticate_request (load_config open_env) store_erp ?ev (sample_store, [])
     = (Inr (JInt 2), ?w1)"
    by code_simp
  have ip: "inventory_params ?ev = Next ?p"
    by code_simp
  have tp: "tags_params ?ev = Next ?t"
    by code_simp
  have dom: "inventory_domain ?p = Inr ?cs"
    by code_simp
  have s1: "erp_search store_erp (JInt 2) ''product.product'' ?cs
       (Some \<lparr> kw_limit = p_limit ?p, kw_offset = p_offset ?p, kw_order = ''name'' \<rparr>) (fst ?w1)
       = (Inr [], sample_store)"
    by code_simp
  have s2: "erp_search store_erp (JInt 2) ''product.tag'' (tags_domain ?t)
       (Some \<lparr> kw_limit = t_limit ?t, kw_offset = t_offset ?t, kw_order = ''name'' \<rparr>) (fst ?w1)
       = (Inr [], sample_store)"
    by code_simp
  have ctx: "make_ssl_context (load_config open_env)
       = \<lparr> check_hostname = False, verify_mode = CERT_NONE \<rparr>"
    by code_simp
  note t = empty_page_is_200_without_count_or_read[OF auth, of ?p ?cs sample_store sample_builtins
      ?t sample_store]
  from t[THEN conjunct1] ip dom s1
  have a: "\<exists>r w'. handle_list_inventory sample_builtins (load_config open_env) store_erp ?ev
          (sample_store, []) = (Inr r, w')
        \<and> statusCode r = 200
        \<and> body_field r ''total_count'' = Some (JInt 0)
        \<and> body_field r ''limit'' = Some (JInt 100)
        \<and> body_field r ''offset'' = Some (JInt 7)
        \<and> body_field r ''pagination'' = None
        \<and> map method_name (calls w') = [''authenticate'', ''search'']"
    by (auto simp: calls_def)
  from t[THEN conjunct2] tp s2
  have b: "\<exists>r w'. handle_list_tags (load_config open_env) store_erp ?ev
          (sample_store, []) = (Inr r, w')
        \<and> statusCode r = 200
        \<and> body_field r ''total_count'' = Some (JInt 0)
        \<and> body_field r ''limit'' = Some (JInt 100)
        \<and> body_field r ''offset'' = Some (JInt 7)
        \<and> body_field r ''pagination'' = None
        \<and> map method_name (calls w') = [''authenticate'', ''search'']"
    by (auto simp: calls_def)
  show ?thesis
    using auth ip tp a b by blast
qed

section \<open>The calls of the inventory listing\<close>

lemma inventory_query_calls:
  assumes "inventory_query B E uid p mth w1 = (Inr r, w2)"
  shows "\<exists>cs. inventory_domain p = Inr cs \<and>
     (calls w2 = calls w1 @ [Search ''product.product'' cs
          (Some \<lparr> kw_limit = p_limit p, kw_offset = p_offset p, kw_order = ''name'' \<rparr>)]
      \<or> (\<exists>ids rest. ids \<noteq> [] \<and>
            calls w2 = calls w1 @
              [Search ''product.product'' cs
                 (Some \<lparr> kw_limit = p_limit p, kw_offset = p_offset p, kw_order = ''name'' \<rparr>),
               Read ''product.product'' (JArr (map JInt ids)) inventory_fields,
               SearchCount ''product.product'' cs] @ rest
            \<and> (rest = [] \<or> (\<exists>tids. rest = [Read ''product.tag'' (JArr tids) tag_fields]))))"
  using assms
  by (auto simp: inventory_query_def rpc_defs calls_def split: sum.splits prod.splits if_splits)


lemma auth_error_statuses:
  "authenticate_request cfg E ev w = (Inl r, w') \<Longrightarrow> statusCode r \<in> {401, 500}"
  by (auto simp: authenticate_request_def error_response_def
      split: prod.splits sum.splits if_splits)

text \<open>
  C6, amended: every list or search request for the inventory that is answered with 200
  has issued, after the authentication, first the id search with limit, offset and
  ordering by name; and, when the search found ids, then the bulk read of the fields
  id, name, sale price, cost price, currency reference and tag-id list, then the count
  of the records matching the domain, then at most one read of tags.
\<close>

theorem list_inventory_call_order:
  assumes run: "fst (handle_list_inventory B cfg E ev w) = Inr r"
    and ok: "statusCode r = 200"
  shows "\<exists>p cs. inventory_params ev = Next p \<and> inventory_domain p = Inr cs \<and>
     (calls (snd (handle_list_inventory B cfg E ev w)) = calls w @
        [Authenticate (make_ssl_context cfg),
         Search ''product.product'' cs
           (Some \<lparr> kw_limit = p_limit p, kw_offset = p_offset p, kw_order = ''name'' \<rparr>)]
      \<or> (\<exists>ids rest. ids \<noteq> [] \<and>
            calls (snd (handle_list_inventory B cfg E ev w)) = calls w @
              [Authenticate (make_ssl_context cfg),
               Search ''product.product'' cs
                 (Some \<lparr> kw_limit = p_limit p, kw_offset = p_offset p, kw_order = ''name'' \<rparr>),
               Read ''product.product'' (JArr (map JInt ids)) inventory_fields,
               SearchCount ''product.product'' cs] @ rest
            \<and> (rest = [] \<or> (\<exists>tids. rest = [Read ''product.tag'' (JArr tids) tag_fields]))))"
proof -
  obtain a w1 where Pair: "authenticate_request cfg E ev w = (a, w1)"
    by (metis surj_pair)
  show ?thesis
  proof (cases a)
    case (Inl err)
    with Pair run ok auth_error_statuses[of cfg E ev w err w1] show ?thesis
      by (auto simp: handle_list_inventory_def)
  next
    case (Inr uid)
    note auth = Pair[unfolded Inr]
    show ?thesis
    proof (cases "inventory_params ev")
      case (Raise e)
      with auth run show ?thesis by (simp add: handle_list_inventory_def)
    next
      case (Return r')
      with auth run ok inventory_params_status[of ev r'] show ?thesis
        by (simp add: handle_list_inventory_def)
    next
      case (Next p)
      obtain res w2 where Pair: "inventory_query B E uid p (method_of ev) w1 = (res, w2)"
        by (metis surj_pair)
      show ?thesis
      proof -
        show ?thesis
        proof (cases res)
          case (Inl e)
          with auth Next Pair run ok show ?thesis
            by (auto simp: handle_list_inventory_def error_response_def split: pyexc.splits)
        next
          case (Inr r')
          have h: "handle_list_inventory B cfg E ev w = (Inr r', w2)"
            using auth Next Pair Inr by (simp add: handle_list_inventory_def)
          from inventory_query_calls[OF Pair[unfolded Inr]] auth_ok_calls[OF auth] Next
          show ?thesis
            unfolding h by auto
        qed
      qed
    qed
  qed
qed

theorem list_inventory_call_order_witness:
  "(case fst (handle_list_inventory sample_builtins (load_config open_env) store_erp
             (request ''GET'' ''/'' [(''limit'', ''2'')] Absent) (sample_store, [])) of
      Inr r \<Rightarrow> statusCode r = 200 | Inl e \<Rightarrow> False)
   \<and> (\<exists>p cs. inventory_params (request ''GET'' ''/'' [(''limit'', ''2'')] Absent) = Next p
        \<and> inventory_domain p = Inr cs
        \<and> (calls (snd (handle_list_inventory sample_builtins (load_config open_env) store_erp
               (request ''GET'' ''/'' [(''limit'', ''2'')] Absent) (sample_store, [])))
             = calls (sample_store, []) @
               [Authenticate (make_ssl_context (load_config open_env)),
                Search ''product.product'' cs
                  (Some \<lparr> kw_limit = p_limit p, kw_offset = p_offset p, kw_order = ''name'' \<rparr>)]
           \<or> (\<exists>ids rest. ids \<noteq> [] \<and>
                calls (snd (handle_list_inventory sample_builtins (load_config open_env) store_erp
                  (request ''GET'' ''/'' [(''limit'', ''2'')] Absent) (sample_store, [])))
                = calls (sample_store, []) @
                  [Authenticate (make_ssl_context (load_config open_env)),
                   Search ''product.product'' cs
                     (Some \<lparr> kw_limit = p_limit p, kw_offset = p_offset p,
                             kw_order = ''name'' \<rparr>),
                   Read ''product.product'' (JArr (map JInt ids)) inventory_fields,
                   SearchCount ''product.product'' cs] @ rest
                \<and> (rest = [] \<or> (\<exists>tids. rest = [Read ''product.tag'' (JArr tids) tag_fields])))))"
proof -
  have ok: "(case fst (handle_list_inventory sample_builtins (load_config open_env) store_erp
             (request ''GET'' ''/'' [(''limit'', ''2'')] Absent) (sample_store, [])) of
      Inr r \<Rightarrow> statusCode r = 200 | Inl e \<Rightarrow> False)"
    by code_simp
  then obtain r where r: "fst (handle_list_inventory sample_builtins (load_config open_env) store_erp
             (request ''GET'' ''/'' [(''limit'', ''2'')] Absent) (sample_store, [])) = Inr r"
    and st: "statusCode r = 200"
    by (auto split: sum.splits)
  from list_inventory_call_order[OF r st] ok show ?thesis
    by blast
qed





text \<open>
  C6, as stated, fails: on a successful listing the count is issued after the search and
  the read, not before them.
\<close>

theorem list_inventory_count_first_counterexample:
  "statusCode (fst (lambda_handler sample_builtins (load_config open_env) store_erp
       (request ''GET'' ''/'' [(''limit'', ''2'')] Absent) (sample_store, []))) = 200
   \<and> map method_name
        (calls (snd (lambda_handler sample_builtins (load_config open_env) store_erp
           (request ''GET'' ''/'' [(''limit'', ''2'')] Absent) (sample_store, []))))
     = [''authenticate'', ''search'', ''read'', ''search_count'', ''read'']"
  by code_simp

section \<open>Updating a product whose name is ambiguous\<close>

lemma auth_ok_no_mutation:
  "authenticate_request cfg E ev w = (Inr uid, w1) \<Longrightarrow>
     filter is_mutation (calls w1) = filter is_mutation (calls w)"
  using auth_ok_calls[of cfg E ev w uid w1] by simp


lemma resolve_product_exact:
  assumes "erp_search E uid ''product.product'' (name_is n) None (fst w1) = (Inr ids, s2)"
    and "ids \<noteq> []"
  shows "resolve_product E uid n w1
       = (Inr ids, (s2, snd w1 @ [Search ''product.product'' (name_is n) None]))"
  using assms by (simp add: resolve_product_def rpc_defs)

lemma resolve_product_fallback:
  assumes "erp_search E uid ''product.product'' (name_is n) None (fst w1) = (Inr [], s2)"
    and "erp_search E uid ''product.product'' (name_like n) None s2 = (Inr ids, s3)"
  shows "resolve_product E uid n w1
       = (Inr ids, (s3, snd w1 @ [Search ''product.product'' (name_is n) None,
                                  Search ''product.product'' (name_like n) None]))"
  using assms by (simp add: resolve_product_def rpc_defs)







section \<open>Creating a record whose name exists\<close>

lemma check_tag_ids_calls:
  assumes "check_tag_ids E uid tv w1 = (x, w2)"
  shows "calls w2 = calls w1
       \<or> calls w2 = calls w1 @ [Search ''product.tag'' [Cond ''id'' ''in'' tv] None]"
  using assms
  by (auto simp: check_tag_ids_def rpc_defs calls_def split: if_splits prod.splits sum.splits)

lemma create_product_params_calls:
  assumes "create_product_params B E uid ev w1 = (x, w2)"
  shows "calls w2 = calls w1
       \<or> (\<exists>tv. calls w2 = calls w1 @ [Search ''product.tag'' [Cond ''id'' ''in'' tv] None])"
proof (cases "ev_body ev")
  case (Parsed d)
  show ?thesis
    using assms Parsed
    by (auto simp: create_product_params_def dest: check_tag_ids_calls
        split: sum.splits bool.splits if_splits step.splits prod.splits)
qed (use assms in \<open>auto simp: create_product_params_def\<close>)

lemma strip_name_of:
  assumes "bind_exc (py_getitem d k) py_strip = Inr n"
  shows "\<exists>s. py_getitem d k = Inr (JStr s) \<and> n = strip s"
proof (cases "py_getitem d k")
  case (Inl e)
  with assms show ?thesis by (simp add: bind_exc_def)
next
  case (Inr v)
  with assms show ?thesis by (cases v) (simp_all add: bind_exc_def)
qed

lemma create_tag_params_name:
  assumes "create_tag_params ev = Next t"
  shows "\<exists>d s. ev_body ev = Parsed d \<and> py_getitem d ''name'' = Inr (JStr s)
           \<and> nt_name t = strip s"
proof (cases "ev_body ev")
  case (Parsed d)
  show ?thesis
    using assms Parsed
    by (auto simp: create_tag_params_def step_of_def bind_exc_def[of "py_get _ _ _"]
        dest!: strip_name_of
        split: sum.splits bool.splits if_splits)
qed (use assms in \<open>auto simp: create_tag_params_def\<close>)

lemma create_product_params_name:
  assumes "create_product_params B E uid ev w1 = (Next p, w2)"
  shows "\<exists>d s. ev_body ev = Parsed d \<and> py_getitem d ''name'' = Inr (JStr s)
           \<and> np_name p = strip s"
proof (cases "ev_body ev")
  case (Parsed d)
  show ?thesis
    using assms Parsed
    by (auto simp: create_product_params_def
        dest!: strip_name_of
        split: sum.splits bool.splits if_splits step.splits prod.splits)
qed (use assms in \<open>auto simp: create_product_params_def\<close>)


text \<open>
  C4: a create-tag or create-product request that passed authentication and validation,
  and for whose trimmed name the exact-name search of the model finds a record, is
  answered with 409; after the search no call is issued, so the run issues no create and
  no write.
\<close>

theorem existing_name_is_409_without_create:
  assumes auth: "authenticate_request cfg E ev w = (Inr uid, w1)"
    and existing: "existing \<noteq> []"
  shows "(create_tag_params ev = Next t
          \<and> erp_search E uid ''product.tag'' (name_is (nt_name t)) None (fst w1)
              = (Inr existing, s2)
          \<longrightarrow> (\<exists>d s. ev_body ev = Parsed d \<and> py_getitem d ''name'' = Inr (JStr s)
                   \<and> nt_name t = strip s)
              \<and> handle_create_tag cfg E ev w
                  = (Inr (error_response 409
                            (''Tag '' @ [quote] @ nt_name t @ [quote] @ '' already exists'')),
                     (s2, calls w @ [Authenticate (make_ssl_context cfg),
                                     Search ''product.tag'' (name_is (nt_name t)) None]))
              \<and> filter is_mutation (calls (snd (handle_create_tag cfg E ev w)))
                  = filter is_mutation (calls w))
       \<and> (create_product_params B E uid ev w1 = (Next p, w2)
          \<and> erp_search E uid ''product.product'' (name_is (np_name p)) None (fst w2)
              = (Inr existing, s3)
          \<longrightarrow> (\<exists>d s. ev_body ev = Parsed d \<and> py_getitem d ''name'' = Inr (JStr s)
                   \<and> np_name p = strip s)
              \<and> handle_create_product B cfg E ev w
                  = (Inr (error_response 409
                            (''Product '' @ [quote] @ np_name p @ [quote] @ '' already exists'')),
                     (s3, calls w2 @ [Search ''product.product'' (name_is (np_name p)) None]))
              \<and> filter is_mutation (calls (snd (handle_create_product B cfg E ev w)))
                  = filter is_mutation (calls w))"
proof (intro conjI impI)
  assume h: "create_tag_params ev = Next t
          \<and> erp_search E uid ''product.tag'' (name_is (nt_name t)) None (fst w1)
              = (Inr existing, s2)"
  then show "\<exists>d s. ev_body ev = Parsed d \<and> py_getitem d ''name'' = Inr (JStr s)
                   \<and> nt_name t = strip s"
    using create_tag_params_name by blast
  have q: "create_tag_query E uid t w1
      = (Inr (error_response 409 (''Tag '' @ [quote] @ nt_name t @ [quote] @ '' already exists'')),
         (s2, snd w1 @ [Search ''product.tag'' (name_is (nt_name t)) None]))"
    using h existing by (simp add: create_tag_query_def rpc_defs)
  show run: "handle_create_tag cfg E ev w
                  = (Inr (error_response 409
                            (''Tag '' @ [quote] @ nt_name t @ [quote] @ '' already exists'')),
                     (s2, calls w @ [Authenticate (make_ssl_context cfg),
                                     Search ''product.tag'' (name_is (nt_name t)) None]))"
    using h auth q auth_ok_calls[OF auth]
    by (simp add: handle_create_tag_def calls_def)
  show "filter is_mutation (calls (snd (handle_create_tag cfg E ev w)))
                  = filter is_mutation (calls w)"
    unfolding run by (simp add: calls_def)
next
  assume h: "create_product_params B E uid ev w1 = (Next p, w2)
          \<and> erp_search E uid ''product.product'' (name_is (np_name p)) None (fst w2)
              = (Inr existing, s3)"
  then show "\<exists>d s. ev_body ev = Parsed d \<and> py_getitem d ''name'' = Inr (JStr s)
                   \<and> np_name p = strip s"
    using create_product_params_name by blast
  have q: "create_product_query E uid p w2
      = (Inr (error_response 409
                (''Product '' @ [quote] @ np_name p @ [quote] @ '' already exists'')),
         (s3, snd w2 @ [Search ''product.product'' (name_is (np_name p)) None]))"
    using h existing by (simp add: create_product_query_def rpc_defs)
  show run: "handle_create_product B cfg E ev w
                  = (Inr (error_response 409
                            (''Product '' @ [quote] @ np_name p @ [quote] @ '' already exists'')),
                     (s3, calls w2 @ [Search ''product.product'' (name_is (np_name p)) None]))"
    using h auth q by (simp add: handle_create_product_def calls_def)
  from h have "calls w2 = calls w1
       \<or> (\<exists>tv. calls w2 = calls w1 @ [Search ''product.tag'' [Cond ''id'' ''in'' tv] None])"
    using create_product_params_calls by blast
  then show "filter is_mutation (calls (snd (handle_create_product B cfg E ev w)))
                  = filter is_mutation (calls w)"
    unfolding run using auth_ok_calls[OF auth] by (auto simp: calls_def)
qed

theorem existing_name_is_409_without_create_witness:
  "authenticate_request (load_config open_env) store_erp
     (request ''POST'' ''/tags'' [] (Parsed (JObj [(''name'', JStr ''Premium '')])))
     (sample_store, [])
     = (Inr (JInt 2),
        (sample_store, [Authenticate \<lparr> check_hostname = False, verify_mode = CERT_NONE \<rparr>]))
   \<and> create_tag_params (request ''POST'' ''/tags'' [] (Parsed (JObj [(''name'', JStr ''Premium '')])))
       = Next \<lparr> nt_name = ''Premium'', nt_color = JInt 0 \<rparr>
   \<and> erp_search store_erp (JInt 2) ''product.tag'' (name_is ''Premium'') None sample_store
       = (Inr [1], sample_store)
   \<and> handle_create_tag (load_config open_env) store_erp
        (request ''POST'' ''/tags'' [] (Parsed (JObj [(''name'', JStr ''Premium '')])))
        (sample_store, [])
       = (Inr (error_response 409 (''Tag '' @ [quote] @ ''Premium'' @ [quote] @ '' already exists'')),
          (sample_store,
           [Authenticate \<lparr> check_hostname = False, verify_mode = CERT_NONE \<rparr>,
            Search ''product.tag'' (name_is ''Premium'') None]))
   \<and> create_product_params sample_builtins store_erp (JInt 2)
        (request ''POST'' ''/products'' []
           (Parsed (JObj [(''name'', JStr ''Widget''), (''price'', JInt 7),
                          (''tag_ids'', JArr [JInt 1])])))
        (sample_store, [Authenticate \<lparr> check_hostname = False, verify_mode = CERT_NONE \<rparr>])
       = (Next \<lparr> np_name = ''Widget'', np_sales_price = Fin 7, np_cost_price = None,
                 np_tag_ids = JArr [JInt 1] \<rparr>,
          (sample_store,
           [Authenticate \<lparr> check_hostname = False, verify_mode = CERT_NONE \<rparr>,
            Search ''product.tag'' [Cond ''id'' ''in'' (JArr [JInt 1])] None]))
   \<and> erp_search store_erp (JInt 2) ''product.product'' (name_is ''Widget'') None sample_store
       = (Inr [12], sample_store)
   \<and> handle_create_product sample_builtins (load_config open_env) store_erp
        (request ''POST'' ''/products'' []
           (Parsed (JObj [(''name'', JStr ''Widget''), (''price'', JInt 7),
                          (''tag_ids'', JArr [JInt 1])])))
        (sample_store, [])
       = (Inr (error_response 409
                 (''Product '' @ [quote] @ ''Widget'' @ [quote] @ '' already exists'')),
          (sample_store,
           [Authenticate \<lparr> check_hostname = False, verify_mode = CERT_NONE \<rparr>,
            Search ''product.tag'' [Cond ''id'' ''in'' (JArr [JInt 1])] None,
            Search ''product.product'' (name_is ''Widget'') None]))"
proof -
  let ?tev = "request ''POST'' ''/tags'' [] (Parsed (JObj [(''name'', JStr ''Premium '')]))"
  let ?pev = "request ''POST'' ''/products'' []
           (Parsed (JObj [(''name'', JStr ''Widget''), (''price'', JInt 7),
                          (''tag_ids'', JArr [JInt 1])]))"
  let ?t = "\<lparr> nt_name = ''Premium'', nt_color = JInt 0 \<rparr>"
  let ?p = "\<lparr> np_name = ''Widget'', np_sales_price = Fin 7, np_cost_price = None,
                 np_tag_ids = JArr [JInt 1] \<rparr>"
  let ?w1 = "(sample_store, [Authenticate \<lparr> check_hostname = False, verify_mode = CERT_NONE \<rparr>])"
  let ?w2 = "(sample_store,
           [Authenticate \<lparr> check_hostname = False, verify_mode = CERT_NONE \<rparr>,
            Search ''product.tag'' [Cond ''id'' ''in'' (JArr [JInt 1])] None])"
  have tauth: "authenticate_request (load_config open_env) store_erp ?tev (sample_store, [])
     = (Inr (JInt 2), ?w1)"
    by code_simp
  have pauth: "authenticate_request (load_config open_env) store_erp ?pev (sample_store, [])
     = (Inr (JInt 2), ?w1)"
    by code_simp
  have tparams: "create_tag_params ?tev = Next ?t"
    by code_simp
  have pparams: "create_product_params sample_builtins store_erp (JInt 2) ?pev ?w1 = (Next ?p, ?w2)"
    by code_simp
  have tsearch: "erp_search store_erp (JInt 2) ''product.tag'' (name_is ''Premium'') None
       sample_store = (Inr [1], sample_store)"
    by code_simp
  have psearch: "erp_search store_erp (JInt 2) ''product.product'' (name_is ''Widget'') None
       sample_store = (Inr [12], sample_store)"
    by code_simp
  have ctx: "make_ssl_context (load_config open_env)
       = \<lparr> check_hostname = False, verify_mode = CERT_NONE \<rparr>"
    by code_simp
  have ne1: "[1 :: int] \<noteq> []" and ne2: "[12 :: int] \<noteq> []"
    by simp_all
  have a: "handle_create_tag (load_config open_env) store_erp ?tev (sample_store, [])
       = (Inr (error_response 409 (''Tag '' @ [quote] @ ''Premium'' @ [quote] @ '' already exists'')),
          (sample_store,
           [Authenticate \<lparr> check_hostname = False, verify_mode = CERT_NONE \<rparr>,
            Search ''product.tag'' (name_is ''Premium'') None]))"
    using existing_name_is_409_without_create[OF tauth ne1, THEN conjunct1,
        of ?t sample_store] tparams tsearch
    by (simp add: calls_def ctx)
  have b: "handle_create_product sample_builtins (load_config open_env) store_erp ?pev
        (sample_store, [])
       = (Inr (error_response 409
                 (''Product '' @ [quote] @ ''Widget'' @ [quote] @ '' already exists'')),
          (sample_store,
           [Authenticate \<lparr> check_hostname = False, verify_mode = CERT_NONE \<rparr>,
            Search ''product.tag'' [Cond ''id'' ''in'' (JArr [JInt 1])] None,
            Search ''product.product'' (name_is ''Widget'') None]))"
    using existing_name_is_409_without_create[OF pauth ne2, THEN conjunct2,
        of sample_builtins ?p ?w2 sample_store] pparams psearch
    by (simp add: calls_def)
  show ?thesis
    using tauth tparams tsearch a pparams psearch b by blast
qed

section \<open>Numeric parameters\<close>






section \<open>The check of tag ids\<close>

lemma duplicate_ids_never_pass:
  assumes search: "erp_search E uid ''product.tag'' [Cond ''id'' ''in'' (JArr ids)] None (fst w)
                   = (Inr existing, s')"
    and once: "distinct existing"
    and listed: "set (map JInt existing) \<subseteq> set ids"
    and dup: "\<not> distinct ids"
  shows "check_tag_ids E uid (JArr ids) w
       = (Return (error_response 400 ''One or more tag IDs do not exist''),
          (s', snd w @ [Search ''product.tag'' [Cond ''id'' ''in'' (JArr ids)] None]))"
proof -
  have ne: "ids \<noteq> []"
    using dup by auto
  have "distinct (map JInt existing)"
    using once by (simp add: distinct_map inj_on_def)
  then have "length existing = card (set (map JInt existing))"
    using distinct_card[of "map JInt existing"] by simp
  also have "\<dots> \<le> card (set ids)"
    using listed by (simp add: card_mono)
  also have "\<dots> < length ids"
    using dup by (metis card_distinct card_length le_neq_implies_less)
  finally have "length existing \<noteq> length ids"
    by simp
  then show ?thesis
    using search ne by (simp add: check_tag_ids_def rpc_defs is_list_def py_len_def)
qed

text \<open>
  C7 holds of the intent of the code (its comment \<^verbatim>\<open>Validate tag IDs exist\<close> and its
  message), and the code misses it: the check compares the number of tags found with the
  length of the list, so a list that names an existing tag twice is rejected with
  \<^verbatim>\<open>One or more tag IDs do not exist\<close>, while the same id listed once passes and the
  product is created. A falsy value that is no array, such as 0, passes as well.
\<close>

theorem duplicate_tag_ids_rejected:
  "store_search sample_store ''product.tag'' [Cond ''id'' ''='' (JInt 1)] = [1]
   \<and> check_tag_ids store_erp (JInt 2) (JArr [JInt 1, JInt 1]) (sample_store, [])
       = (Return (error_response 400 ''One or more tag IDs do not exist''),
          (sample_store,
           [Search ''product.tag'' [Cond ''id'' ''in'' (JArr [JInt 1, JInt 1])] None]))
   \<and> statusCode (fst (lambda_handler sample_builtins (load_config open_env) store_erp
        (request ''POST'' ''/products'' []
           (Parsed (JObj [(''name'', JStr ''Bolt''), (''price'', JInt 5),
                          (''tag_ids'', JArr [JInt 1, JInt 1])])))
        (sample_store, []))) = 400
   \<and> body_field (fst (lambda_handler sample_builtins (load_config open_env) store_erp
        (request ''POST'' ''/products'' []
           (Parsed (JObj [(''name'', JStr ''Bolt''), (''price'', JInt 5),
                          (''tag_ids'', JArr [JInt 1, JInt 1])])))
        (sample_store, []))) ''error''
       = Some (JStr ''One or more tag IDs do not exist'')
   \<and> map method_name (calls (snd (lambda_handler sample_builtins (load_config open_env) store_erp
        (request ''POST'' ''/products'' []
           (Parsed (JObj [(''name'', JStr ''Bolt''), (''price'', JInt 5),
                          (''tag_ids'', JArr [JInt 1, JInt 1])])))
        (sample_store, []))))
       = [''authenticate'', ''search'']
   \<and> statusCode (fst (lambda_handler sample_builtins (load_config open_env) store_erp
        (request ''POST'' ''/products'' []
           (Parsed (JObj [(''name'', JStr ''Bolt''), (''price'', JInt 5),
                          (''tag_ids'', JArr [JInt 1])])))
        (sample_store, []))) = 201
   \<and> statusCode (fst (lambda_handler sample_builtins (load_config open_env) store_erp
        (request ''POST'' ''/products'' []
           (Parsed (JObj [(''name'', JStr ''Bolt''), (''price'', JInt 5),
                          (''tag_ids'', JInt 0)])))
        (sample_store, []))) = 201"
  by code_simp

end
